theory Spec2Isabelle
  imports Main "HOL-Library.AList" "HOL-Library.Sublist"
begin

section \<open>Data model (shared/schema.ts)\<close>

text \<open>
  JSON scalars as they occur in request bodies and in the settings object.
  \<open>JOther\<close> stands for every other JSON value (a non-integer number, an array,
  an object); none of the schemas used below accepts it.
\<close>

datatype json = JNull | JBool bool | JNum int | JStr string | JOther

text \<open>A plain JavaScript object: its own enumerable properties in insertion order.\<close>

type_synonym obj = "(string \<times> json) list"

text \<open>
  JavaScript truthiness of a property read; \<open>None\<close> is \<open>undefined\<close> (a property
  that is missing, or \<open>settings?.x\<close> on a missing object).
\<close>

fun truthy :: "json option \<Rightarrow> bool" where
  "truthy None = False"
| "truthy (Some JNull) = False"
| "truthy (Some (JBool b)) = b"
| "truthy (Some (JNum n)) = (n \<noteq> 0)"
| "truthy (Some (JStr s)) = (s \<noteq> [])"
| "truthy (Some JOther) = True"

text \<open>Truthiness of an environment variable: set and not the empty string.\<close>

fun truthy_env :: "string option \<Rightarrow> bool" where
  "truthy_env None = False"
| "truthy_env (Some s) = (s \<noteq> [])"

text \<open>Object spread \<open>{...a, ...b}\<close>: the keys of \<open>a\<close> keep their place, new keys follow.\<close>

definition spread :: "obj \<Rightarrow> obj \<Rightarrow> obj" where
  "spread a b = foldl (\<lambda>acc (k, v). AList.update k v acc) a b"

record FileAttachment =
  name_f :: string
  type_f :: string
  content_f :: string

record Message =
  id_msg :: int
  chatId_msg :: int
  content_msg :: string
  role_msg :: string
  createdAt_msg :: nat
  files_msg :: "FileAttachment list option"

text \<open>\<open>InsertMessage\<close>: the fields picked by \<open>insertMessageSchema\<close>.\<close>

record InsertMessage =
  chatId_ins :: int
  content_ins :: string
  role_ins :: string
  files_ins :: "FileAttachment list option"

text \<open>
  \<open>Partial<InsertMessage>\<close>: every key may be absent (\<open>None\<close>). A present \<open>files\<close>
  key carries a list or null.
\<close>

record PartialInsertMessage =
  chatId_upd :: "int option"
  content_upd :: "string option"
  role_upd :: "string option"
  files_upd :: "FileAttachment list option option"

record Chat =
  id_chat :: int
  botId_chat :: int
  title_chat :: string
  createdAt_chat :: nat

record Bot =
  id_bot :: int
  name_bot :: string
  avatar_bot :: string
  color_bot :: string
  description_bot :: "string option"
  model_bot :: string
  createdAt_bot :: nat

text \<open>The three environment variables the server reads.\<close>

record Env =
  OPENAI_API_KEY :: "string option"
  OPENAI_API_URL :: "string option"
  OPENAI_API_HEADERS :: "string option"

section \<open>MemStorage (server/storage.ts)\<close>

text \<open>
  A JavaScript \<open>Map\<close> is an association list in insertion order: \<open>get\<close> is
  \<^const>\<open>map_of\<close>, \<open>set\<close> is \<^const>\<open>AList.update\<close> (an existing key keeps its place),
  \<open>delete\<close> is \<^const>\<open>AList.delete\<close>. The settings row is an object, since the routes
  take it apart with rest destructuring and spread.
\<close>

record MemStorage =
  bots :: "(int \<times> Bot) list"
  chats :: "(int \<times> Chat) list"
  messages :: "(int \<times> Message) list"
  settings :: "obj option"
  botCurrentId :: int
  chatCurrentId :: int
  messageCurrentId :: int

text \<open>The constructor; \<open>now\<close> is the value of \<open>new Date()\<close> for the default bot.\<close>

definition MemStorage_new :: "nat \<Rightarrow> MemStorage" where
  "MemStorage_new now =
     \<lparr> bots = [(1, \<lparr> id_bot = 1, name_bot = ''AI Assistant'', avatar_bot = ''A'',
                      color_bot = ''#0078D4'',
                      description_bot = Some ''General AI Assistant'',
                      model_bot = ''gpt-4o'', createdAt_bot = now \<rparr>)],
       chats = [],
       messages = [],
       settings = Some
         [(''id'', JNum 1),
          (''apiKey'', JStr []),
          (''apiUrl'', JStr ''https://api.openai.com/v1''),
          (''tokenLimit'', JNum 4000),
          (''temperature'', JStr ''0.7''),
          (''topK'', JStr ''0.5''),
          (''useStreamingApi'', JBool True),
          (''customApiHeaders'', JStr []),
          (''hasApiKey'', JBool False)],
       botCurrentId = 2,
       chatCurrentId = 1,
       messageCurrentId = 1 \<rparr>"

definition getBot :: "MemStorage \<Rightarrow> int \<Rightarrow> Bot option" where
  "getBot st i = map_of (bots st) i"

definition getChat :: "MemStorage \<Rightarrow> int \<Rightarrow> Chat option" where
  "getChat st i = map_of (chats st) i"

definition createChat :: "MemStorage \<Rightarrow> int \<Rightarrow> string \<Rightarrow> nat \<Rightarrow> Chat \<times> MemStorage" where
  "createChat st botId title now =
     (let i = chatCurrentId st;
          chat = \<lparr> id_chat = i, botId_chat = botId, title_chat = title,
                   createdAt_chat = now \<rparr>
      in (chat, st\<lparr> chatCurrentId := i + 1, chats := AList.update i chat (chats st) \<rparr>))"

definition getMessage :: "MemStorage \<Rightarrow> int \<Rightarrow> Message option" where
  "getMessage st i = map_of (messages st) i"

definition getMessagesByChatId :: "MemStorage \<Rightarrow> int \<Rightarrow> Message list" where
  "getMessagesByChatId st c =
     sort_key createdAt_msg (filter (\<lambda>m. chatId_msg m = c) (map snd (messages st)))"

definition createMessage :: "MemStorage \<Rightarrow> InsertMessage \<Rightarrow> nat \<Rightarrow> Message \<times> MemStorage" where
  "createMessage st ins now =
     (let i = messageCurrentId st;
          message = \<lparr> id_msg = i, chatId_msg = chatId_ins ins,
                      content_msg = content_ins ins, role_msg = role_ins ins,
                      createdAt_msg = now, files_msg = files_ins ins \<rparr>
      in (message,
          st\<lparr> messageCurrentId := i + 1, messages := AList.update i message (messages st) \<rparr>))"

text \<open>\<open>{...message, ...messageUpdate}\<close>: the keys present in the update win.\<close>

definition merge_message :: "Message \<Rightarrow> PartialInsertMessage \<Rightarrow> Message" where
  "merge_message m u =
     m\<lparr> chatId_msg := (case chatId_upd u of None \<Rightarrow> chatId_msg m | Some c \<Rightarrow> c),
        content_msg := (case content_upd u of None \<Rightarrow> content_msg m | Some c \<Rightarrow> c),
        role_msg := (case role_upd u of None \<Rightarrow> role_msg m | Some r \<Rightarrow> r),
        files_msg := (case files_upd u of None \<Rightarrow> files_msg m | Some f \<Rightarrow> f) \<rparr>"

definition updateMessage ::
  "MemStorage \<Rightarrow> int \<Rightarrow> PartialInsertMessage \<Rightarrow> Message option \<times> MemStorage" where
  "updateMessage st i messageUpdate =
     (case map_of (messages st) i of
        None \<Rightarrow> (None, st)
      | Some message \<Rightarrow>
          (let updatedMessage = merge_message message messageUpdate
           in (Some updatedMessage,
               st\<lparr> messages := AList.update i updatedMessage (messages st) \<rparr>)))"

definition deleteMessage :: "MemStorage \<Rightarrow> int \<Rightarrow> bool \<times> MemStorage" where
  "deleteMessage st i =
     (map_of (messages st) i \<noteq> None, st\<lparr> messages := AList.delete i (messages st) \<rparr>)"

definition getSettings :: "MemStorage \<Rightarrow> obj option" where
  "getSettings st = settings st"

text \<open>\<open>{...this.settings!, ...settingsUpdate}\<close>; spreading \<open>undefined\<close> adds nothing.\<close>

definition updateSettings :: "MemStorage \<Rightarrow> obj \<Rightarrow> obj \<times> MemStorage" where
  "updateSettings st settingsUpdate =
     (let new = spread (case settings st of None \<Rightarrow> [] | Some s \<Rightarrow> s) settingsUpdate
      in (new, st\<lparr> settings := Some new \<rparr>))"

text \<open>The update \<open>{ content: c }\<close> written by the streaming loop.\<close>

definition content_only :: "string \<Rightarrow> PartialInsertMessage" where
  "content_only c =
     \<lparr> chatId_upd = None, content_upd = Some c, role_upd = None, files_upd = None \<rparr>"

section \<open>WebSocket clients (server/routes.ts)\<close>

datatype ReadyState = CONNECTING | OPEN | CLOSING | CLOSED

text \<open>The frames the server sends, before \<open>JSON.stringify\<close>.\<close>

datatype frame =
    message_update int string
  | message_complete int "Message option"
  | message_error int string
  | message_edited int "Message option"

text \<open>A socket: its state, and the frames handed to \<open>send\<close> so far, oldest first.\<close>

record WebSocket =
  readyState :: ReadyState
  sent :: "frame list"

record Client =
  ws :: WebSocket
  chatId :: "int option"

definition send :: "WebSocket \<Rightarrow> frame \<Rightarrow> WebSocket" where
  "send w f = w\<lparr> sent := sent w @ [f] \<rparr>"

text \<open>The handlers of \<open>wss.on('connection')\<close>, on the \<open>clients\<close> map.\<close>

definition on_connection :: "(string \<times> Client) list \<Rightarrow> string \<Rightarrow> WebSocket \<Rightarrow> (string \<times> Client) list" where
  "on_connection cls i w = AList.update i \<lparr> ws = w, chatId = None \<rparr> cls"

text \<open>
  A \<open>join\<close> frame; \<open>c\<close> is \<open>data.chatId\<close> when it is a number, \<open>None\<close> otherwise
  (such a value never equals a chat id under \<open>===\<close>).
\<close>

definition on_join :: "(string \<times> Client) list \<Rightarrow> string \<Rightarrow> int option \<Rightarrow> (string \<times> Client) list" where
  "on_join cls i c =
     (case map_of cls i of
        None \<Rightarrow> cls
      | Some client \<Rightarrow> AList.update i (client\<lparr> chatId := c \<rparr>) cls)"

definition on_close :: "(string \<times> Client) list \<Rightarrow> string \<Rightarrow> (string \<times> Client) list" where
  "on_close cls i = AList.delete i cls"

text \<open>
  The broadcast loop \<open>for (const [clientId, client] of clients.entries())\<close>, which
  the routes repeat for each kind of frame.
\<close>

definition broadcast :: "(string \<times> Client) list \<Rightarrow> int \<Rightarrow> frame \<Rightarrow> (string \<times> Client) list" where
  "broadcast cls c f =
     map (\<lambda>(clientId, client).
            if chatId client = Some c \<and> readyState (ws client) = OPEN
            then (clientId, client\<lparr> ws := send (ws client) f \<rparr>)
            else (clientId, client)) cls"

text \<open>The server: the storage singleton and the \<open>clients\<close> map.\<close>

record Server =
  storage :: MemStorage
  clients :: "(string \<times> Client) list"

section \<open>The completion stream (server/openai.ts, as seen by the route)\<close>

text \<open>
  A \<open>ChatCompletionChunk\<close>, as far as the route reads it:
  \<open>chunk.choices[0]?.delta?.content\<close>.
\<close>

datatype delta = Delta (content_d: "string option")

datatype choice = Choice (delta_c: "delta option")

datatype chunk = Chunk (choices: "choice list")

text \<open>\<open>chunk.choices[0]?.delta?.content || ""\<close>\<close>

definition delta_content :: "chunk \<Rightarrow> string" where
  "delta_content ch =
     (case choices ch of
        [] \<Rightarrow> []
      | c # _ \<Rightarrow>
          (case delta_c c of
             None \<Rightarrow> []
           | Some d \<Rightarrow> (case content_d d of None \<Rightarrow> [] | Some s \<Rightarrow> s)))"

text \<open>A chunk that carries the text \<open>s\<close>.\<close>

definition text_chunk :: "string \<Rightarrow> chunk" where
  "text_chunk s = Chunk [Choice (Some (Delta (Some s)))]"

text \<open>
  What \<open>createChatCompletion\<close> and the iteration over its result do is decided by the
  upstream service, so it is an input of the model: either the call (or obtaining the
  iterator) throws, or the stream yields chunks and then ends normally (\<open>Done\<close>) or
  throws (\<open>Failed\<close>). \<open>Rejected\<close> covers every throw before the first chunk: a
  rejected promise, and a result that \<open>for await\<close> cannot iterate. The prompt and the
  options only feed that call.
\<close>

datatype stream_end = Done | Failed

datatype completion = Rejected | Stream "chunk list" stream_end

section \<open>POST /api/chats/:chatId/messages\<close>

text \<open>The body of the \<open>for await\<close> loop, over the chunks the stream yields.\<close>

fun relay_loop :: "Server \<Rightarrow> int \<Rightarrow> int \<Rightarrow> string \<Rightarrow> chunk list \<Rightarrow> Server \<times> string" where
  "relay_loop s c mid fullContent [] = (s, fullContent)"
| "relay_loop s c mid fullContent (ch # rest) =
     (if delta_content ch \<noteq> []
      then relay_loop
             (s\<lparr> storage := snd (updateMessage (storage s) mid
                                 (content_only (fullContent @ delta_content ch))),
                 clients := broadcast (clients s) c
                              (message_update mid (fullContent @ delta_content ch)) \<rparr>)
             c mid (fullContent @ delta_content ch) rest
      else relay_loop s c mid fullContent rest)"

text \<open>"Final update" and the broadcast of the completion.\<close>

definition relay_complete :: "Server \<Rightarrow> int \<Rightarrow> int \<Rightarrow> string \<Rightarrow> Server" where
  "relay_complete s c mid fullContent =
     (let (finalMessage, st) = updateMessage (storage s) mid (content_only fullContent)
      in s\<lparr> storage := st,
             clients := broadcast (clients s) c (message_complete mid finalMessage) \<rparr>)"

definition fallback_content :: string where
  "fallback_content = ''Sorry, I had trouble generating a response. Please try again.''"

text \<open>The \<open>catch\<close> block around the streaming.\<close>

definition relay_catch :: "Server \<Rightarrow> int \<Rightarrow> int \<Rightarrow> Server" where
  "relay_catch s c mid =
     s\<lparr> storage := snd (updateMessage (storage s) mid (content_only fallback_content)),
        clients := broadcast (clients s) c (message_error mid ''Error generating response'') \<rparr>"

text \<open>
  The inner \<open>try\<close>/\<open>catch\<close>, run after the response was sent: \<open>c\<close> is the chat id
  and \<open>mid\<close> the id of the placeholder message.
\<close>

definition relay :: "Server \<Rightarrow> int \<Rightarrow> int \<Rightarrow> completion \<Rightarrow> Server" where
  "relay s c mid up =
     (case up of
        Rejected \<Rightarrow> relay_catch s c mid
      | Stream chs e \<Rightarrow>
          (let (s', fullContent) = relay_loop s c mid [] chs
           in case e of
                Done \<Rightarrow> relay_complete s' c mid fullContent
              | Failed \<Rightarrow> relay_catch s' c mid))"

text \<open>
  The request as the handler sees it, after multer accepted it: \<open>chatId_param\<close> is
  \<open>parseInt(req.params.chatId)\<close> (\<open>None\<close> for NaN), \<open>content_req\<close> is
  \<open>req.body.content\<close> when it is a string, \<open>files_req\<close> the uploaded files with
  \<open>file.buffer.toString('base64')\<close> already taken.
\<close>

record UploadedFile =
  originalname :: string
  mimetype :: string
  buffer_base64 :: string

record PostMessageRequest =
  chatId_param :: "int option"
  content_req :: "string option"
  files_req :: "UploadedFile list"

text \<open>
  \<open>insertMessageSchema.safeParse\<close> on the object the handler builds. The schema is
  the one drizzle-zod derives from the table: \<open>chatId\<close> a number, \<open>content\<close> and
  \<open>role\<close> strings of any length, \<open>files\<close> optional. The handler supplies a parsed
  number, the literal role and the attachment list itself, so only a \<open>content\<close> that
  is not a string makes the parse fail.
\<close>

definition insertMessageSchema ::
  "int \<Rightarrow> string option \<Rightarrow> string \<Rightarrow> FileAttachment list option \<Rightarrow> InsertMessage option" where
  "insertMessageSchema c content r fs =
     (case content of
        None \<Rightarrow> None
      | Some text \<Rightarrow>
          Some \<lparr> chatId_ins = c, content_ins = text, role_ins = r, files_ins = fs \<rparr>)"

text \<open>\<open>settings?.k\<close>\<close>

definition opt_field :: "obj option \<Rightarrow> string \<Rightarrow> json option" where
  "opt_field s k = (case s of None \<Rightarrow> None | Some ob \<Rightarrow> map_of ob k)"

text \<open>\<open>settings?.apiKey || process.env.OPENAI_API_KEY\<close>, as a condition.\<close>

definition hasApiKey :: "MemStorage \<Rightarrow> Env \<Rightarrow> bool" where
  "hasApiKey st env =
     (truthy (opt_field (getSettings st) ''apiKey'') \<or> truthy_env (OPENAI_API_KEY env))"

datatype message_body =
    Error_body string
  | Invalid_body string
  | Exchange_body Message Message
  | Message_body "Message option"

datatype 'b response = Response (status: nat) (body: 'b)

definition to_attachment :: "UploadedFile \<Rightarrow> FileAttachment" where
  "to_attachment file =
     \<lparr> name_f = originalname file, type_f = mimetype file, content_f = buffer_base64 file \<rparr>"

text \<open>
  The handler up to \<open>res.status(201).json(...)\<close>. \<open>t1\<close> and \<open>t2\<close> are the two
  values of \<open>new Date()\<close>. The third component is \<open>Some (chatId, responseMessage.id)\<close>
  when the handler goes on to stream, \<open>None\<close> when it has returned. The history and
  the system prompt, built between the bot lookup and the placeholder, read the store
  and the files only and go nowhere but into the upstream call; they are left out, as
  is the outer \<open>catch\<close> (500), since no operation of MemStorage throws.
\<close>

definition post_message_request ::
  "Server \<Rightarrow> Env \<Rightarrow> nat \<Rightarrow> nat \<Rightarrow> PostMessageRequest
     \<Rightarrow> message_body response \<times> Server \<times> (int \<times> int) option" where
  "post_message_request s env t1 t2 req =
     (case chatId_param req of
        None \<Rightarrow> (Response 400 (Error_body ''Invalid chat ID''), s, None)
      | Some c \<Rightarrow>
     (case getChat (storage s) c of
        None \<Rightarrow> (Response 404 (Error_body ''Chat not found''), s, None)
      | Some chat \<Rightarrow>
     (let fileAttachments = map to_attachment (files_req req)
      in case insertMessageSchema c (content_req req) ''user''
                (if fileAttachments \<noteq> [] then Some fileAttachments else None) of
        None \<Rightarrow> (Response 400 (Invalid_body ''Invalid message data''), s, None)
      | Some data \<Rightarrow>
     (let (message, st1) = createMessage (storage s) data t1
      in if \<not> hasApiKey st1 env
         then (Response 400 (Error_body
                 ''API key not configured in settings or environment variables (.env)''),
               s\<lparr> storage := st1 \<rparr>, None)
         else
     (case getBot st1 (botId_chat chat) of
        None \<Rightarrow> (Response 404 (Error_body ''Bot not found''), s\<lparr> storage := st1 \<rparr>, None)
      | Some the_bot \<Rightarrow>
     (let (responseMessage, st2) =
            createMessage st1
              \<lparr> chatId_ins = c, content_ins = [], role_ins = ''assistant'',
                files_ins = None \<rparr> t2
      in (Response 201 (Exchange_body message responseMessage),
          s\<lparr> storage := st2 \<rparr>,
          Some (c, id_msg responseMessage))))))))"

text \<open>The whole handler: the response, and the server once the streaming has ended.\<close>

definition post_message ::
  "Server \<Rightarrow> Env \<Rightarrow> nat \<Rightarrow> nat \<Rightarrow> PostMessageRequest \<Rightarrow> completion
     \<Rightarrow> message_body response \<times> Server" where
  "post_message s env t1 t2 req up =
     (case post_message_request s env t1 t2 req of
        (r, s', None) \<Rightarrow> (r, s')
      | (r, s', Some (c, mid)) \<Rightarrow> (r, relay s' c mid up))"

section \<open>PATCH /api/messages/:id\<close>

text \<open>
  The JSON body, key by key (\<open>None\<close>: the key is absent). \<open>files\<close> is taken as
  already of its declared type.
\<close>

record PatchMessageBody =
  chatId_body :: "json option"
  content_body :: "json option"
  role_body :: "json option"
  files_body :: "FileAttachment list option option"

text \<open>An optional key: \<open>None\<close> is a failed parse, \<open>Some None\<close> an absent key.\<close>

fun optional_number :: "json option \<Rightarrow> int option option" where
  "optional_number None = Some None"
| "optional_number (Some (JNum n)) = Some (Some n)"
| "optional_number (Some _) = None"

fun optional_string :: "json option \<Rightarrow> string option option" where
  "optional_string None = Some None"
| "optional_string (Some (JStr s)) = Some (Some s)"
| "optional_string (Some _) = None"

text \<open>\<open>insertMessageSchema.partial().safeParse(req.body)\<close>\<close>

definition insertMessageSchema_partial :: "PatchMessageBody \<Rightarrow> PartialInsertMessage option" where
  "insertMessageSchema_partial b =
     (case (optional_number (chatId_body b), optional_string (content_body b),
            optional_string (role_body b)) of
        (Some c, Some t, Some r) \<Rightarrow>
          Some \<lparr> chatId_upd = c, content_upd = t, role_upd = r, files_upd = files_body b \<rparr>
      | _ \<Rightarrow> None)"

text \<open>\<open>i\<close> is \<open>parseInt(req.params.id)\<close>, \<open>None\<close> for NaN.\<close>

definition patch_message ::
  "Server \<Rightarrow> int option \<Rightarrow> PatchMessageBody \<Rightarrow> message_body response \<times> Server" where
  "patch_message s i b =
     (case i of
        None \<Rightarrow> (Response 400 (Error_body ''Invalid message ID''), s)
      | Some mid \<Rightarrow>
     (case getMessage (storage s) mid of
        None \<Rightarrow> (Response 404 (Error_body ''Message not found''), s)
      | Some message \<Rightarrow>
     (case insertMessageSchema_partial b of
        None \<Rightarrow> (Response 400 (Invalid_body ''Invalid message data''), s)
      | Some data \<Rightarrow>
     (let (updatedMessage, st) = updateMessage (storage s) mid data
      in (Response 200 (Message_body updatedMessage),
          s\<lparr> storage := st,
             clients := broadcast (clients s) (chatId_msg message)
                          (message_edited mid updatedMessage) \<rparr>)))))"

section \<open>GET and PATCH /api/settings\<close>

fun nullable_string :: "json \<Rightarrow> bool" where
  "nullable_string JNull = True"
| "nullable_string (JStr s) = True"
| "nullable_string _ = False"

fun nullable_number :: "json \<Rightarrow> bool" where
  "nullable_number JNull = True"
| "nullable_number (JNum n) = True"
| "nullable_number _ = False"

fun nullable_boolean :: "json \<Rightarrow> bool" where
  "nullable_boolean JNull = True"
| "nullable_boolean (JBool b) = True"
| "nullable_boolean _ = False"

text \<open>The keys picked by \<open>insertSettingsSchema\<close>, with the type of each column.\<close>

definition insertSettingsSchema :: "(string \<times> (json \<Rightarrow> bool)) list" where
  "insertSettingsSchema =
     [(''apiKey'', nullable_string),
      (''apiUrl'', nullable_string),
      (''tokenLimit'', nullable_number),
      (''temperature'', nullable_string),
      (''topK'', nullable_string),
      (''useStreamingApi'', nullable_boolean),
      (''customApiHeaders'', nullable_string),
      (''hasApiKey'', nullable_boolean)]"

text \<open>
  \<open>schema.partial().safeParse(body)\<close>: every key is optional, a present key must have
  its type, keys outside the schema are dropped.
\<close>

definition safeParse_partial :: "(string \<times> (json \<Rightarrow> bool)) list \<Rightarrow> obj \<Rightarrow> obj option" where
  "safeParse_partial schema b =
     (if list_all (\<lambda>(k, ok). case map_of b k of None \<Rightarrow> True | Some v \<Rightarrow> ok v) schema
      then Some (concat (map (\<lambda>(k, ok). case map_of b k of None \<Rightarrow> [] | Some v \<Rightarrow> [(k, v)])
                           schema))
      else None)"

text \<open>
  The object both settings routes pass to \<open>res.json\<close>, as serialised: a property
  whose value is \<open>undefined\<close> is left out.
\<close>

definition safe_settings_json :: "obj \<Rightarrow> Env \<Rightarrow> obj" where
  "safe_settings_json st env =
     (let apiKey = map_of st ''apiKey'';
          safeSettings = AList.delete ''apiKey'' st;
          hasEnvApiKey = truthy_env (OPENAI_API_KEY env);
          envApiUrl = OPENAI_API_URL env;
          hasEnvApiHeaders = truthy_env (OPENAI_API_HEADERS env);
          o1 = AList.update ''hasApiKey'' (JBool (truthy apiKey \<or> hasEnvApiKey)) safeSettings;
          o2 = (case envApiUrl of
                  None \<Rightarrow> AList.delete ''envApiUrl'' o1
                | Some u \<Rightarrow>
                    if u \<noteq> [] then AList.update ''envApiUrl'' (JStr u) o1
                    else AList.delete ''envApiUrl'' o1)
      in AList.update ''hasEnvApiHeaders'' (JBool hasEnvApiHeaders) o2)"

datatype settings_body =
    Settings_error string
  | Settings_invalid string
  | Settings_json obj

definition get_settings :: "Server \<Rightarrow> Env \<Rightarrow> settings_body response" where
  "get_settings s env =
     (case getSettings (storage s) of
        None \<Rightarrow> Response 404 (Settings_error ''Settings not found'')
      | Some st \<Rightarrow> Response 200 (Settings_json (safe_settings_json st env)))"

definition patch_settings :: "Server \<Rightarrow> Env \<Rightarrow> obj \<Rightarrow> settings_body response \<times> Server" where
  "patch_settings s env b =
     (case safeParse_partial insertSettingsSchema b of
        None \<Rightarrow> (Response 400 (Settings_invalid ''Invalid settings data''), s)
      | Some data \<Rightarrow>
          (let (st, sto) = updateSettings (storage s) data
           in (Response 200 (Settings_json (safe_settings_json st env)),
               s\<lparr> storage := sto \<rparr>)))"

section \<open>Vocabulary of the properties\<close>

text \<open>A viewer of chat \<open>c\<close>: a client that joined \<open>c\<close> and whose socket is open.\<close>

definition viewer :: "Client \<Rightarrow> int \<Rightarrow> bool" where
  "viewer cl c = (chatId cl = Some c \<and> readyState (ws cl) = OPEN)"

text \<open>The frames \<open>fs\<close>, in this order, reach a client if it is a viewer of \<open>c\<close>.\<close>

definition deliver :: "int \<Rightarrow> frame list \<Rightarrow> Client \<Rightarrow> Client" where
  "deliver c fs cl =
     (if viewer cl c then cl\<lparr> ws := (ws cl)\<lparr> sent := sent (ws cl) @ fs \<rparr> \<rparr> else cl)"

definition fan_out :: "int \<Rightarrow> frame list \<Rightarrow> (string \<times> Client) list \<Rightarrow> (string \<times> Client) list" where
  "fan_out c fs cls = map (\<lambda>(k, cl). (k, deliver c fs cl)) cls"

text \<open>
  The snapshots of a sequence of deltas: for every non-empty delta, the concatenation
  of the deltas up to and including it.
\<close>

definition snapshots :: "string list \<Rightarrow> string list" where
  "snapshots ds = map concat (filter (\<lambda>p. p \<noteq> [] \<and> last p \<noteq> []) (prefixes ds))"

fun is_update :: "frame \<Rightarrow> bool" where
  "is_update (message_update i t) = True"
| "is_update _ = False"

fun is_complete :: "frame \<Rightarrow> bool" where
  "is_complete (message_complete i m) = True"
| "is_complete _ = False"

fun is_error :: "frame \<Rightarrow> bool" where
  "is_error (message_error i e) = True"
| "is_error _ = False"

text \<open>The text deltas an upstream outcome produced, and whether it failed.\<close>

fun deltas :: "completion \<Rightarrow> string list" where
  "deltas Rejected = []"
| "deltas (Stream chs e) = map delta_content chs"

fun failed :: "completion \<Rightarrow> bool" where
  "failed Rejected = True"
| "failed (Stream chs e) = (e = Failed)"

text \<open>The JSON object of each body the settings routes send.\<close>

fun body_obj :: "settings_body \<Rightarrow> obj" where
  "body_obj (Settings_error m) = [(''message'', JStr m)]"
| "body_obj (Settings_invalid m) = [(''message'', JStr m), (''errors'', JOther)]"
| "body_obj (Settings_json ob) = ob"

section \<open>Example data\<close>

definition empty_env :: Env where
  "empty_env = \<lparr> OPENAI_API_KEY = None, OPENAI_API_URL = None, OPENAI_API_HEADERS = None \<rparr>"

definition demo_env :: Env where
  "demo_env = \<lparr> OPENAI_API_KEY = Some ''sk-demo'', OPENAI_API_URL = None,
                 OPENAI_API_HEADERS = None \<rparr>"

text \<open>A fresh store with one chat (id 1) of the default bot.\<close>

definition demo_storage :: MemStorage where
  "demo_storage = snd (createChat (MemStorage_new 0) 1 ''Demo'' 0)"

definition demo_clients :: "(string \<times> Client) list" where
  "demo_clients =
     [(''a'', \<lparr> ws = \<lparr> readyState = OPEN, sent = [] \<rparr>, chatId = Some 1 \<rparr>),
      (''b'', \<lparr> ws = \<lparr> readyState = OPEN, sent = [] \<rparr>, chatId = Some 2 \<rparr>),
      (''c'', \<lparr> ws = \<lparr> readyState = CLOSING, sent = [] \<rparr>, chatId = Some 1 \<rparr>),
      (''d'', \<lparr> ws = \<lparr> readyState = OPEN, sent = [] \<rparr>, chatId = None \<rparr>)]"

definition demo_server :: Server where
  "demo_server = \<lparr> storage = demo_storage, clients = demo_clients \<rparr>"

definition demo_request :: PostMessageRequest where
  "demo_request = \<lparr> chatId_param = Some 1, content_req = Some ''hi'', files_req = [] \<rparr>"

definition demo_chunks :: "chunk list" where
  "demo_chunks = [text_chunk ''Hel'', Chunk [], text_chunk ''lo!'']"

text \<open>The placeholder of the example exchange, and the server that holds it.\<close>

definition demo_placeholder :: Message where
  "demo_placeholder =
     \<lparr> id_msg = 2, chatId_msg = 1, content_msg = [], role_msg = ''assistant'',
       createdAt_msg = 2, files_msg = None \<rparr>"

definition demo_started :: Server where
  "demo_started = fst (snd (post_message_request demo_server demo_env 1 2 demo_request))"

text \<open>Settings that hold the key \<open>k\<close>, and a server that was given it.\<close>

definition demo_settings :: "string \<Rightarrow> obj" where
  "demo_settings k =
     [(''id'', JNum 1),
      (''apiKey'', JStr k),
      (''apiUrl'', JStr ''https://api.openai.com/v1''),
      (''tokenLimit'', JNum 4000),
      (''temperature'', JStr ''0.7''),
      (''topK'', JStr ''0.5''),
      (''useStreamingApi'', JBool True),
      (''customApiHeaders'', JStr []),
      (''hasApiKey'', JBool False)]"

definition demo_keyed :: "string \<Rightarrow> Server" where
  "demo_keyed k = snd (patch_settings demo_server empty_env [(''apiKey'', JStr k)])"

section \<open>Storage and fan-out lemmas\<close>

lemma getMessage_createMessage:
  "getMessage (snd (createMessage st ins t)) j =
     (if j = messageCurrentId st then Some (fst (createMessage st ins t)) else getMessage st j)"
  by (simp add: getMessage_def createMessage_def Let_def update_conv')

lemma getMessage_updateMessage:
  "getMessage (snd (updateMessage st i u)) j =
     (if j = i then map_option (\<lambda>m. merge_message m u) (getMessage st i) else getMessage st j)"
  by (simp add: getMessage_def updateMessage_def Let_def update_conv' split: option.splits)

lemma fst_updateMessage:
  "fst (updateMessage st i u) = map_option (\<lambda>m. merge_message m u) (getMessage st i)"
  by (simp add: getMessage_def updateMessage_def Let_def split: option.splits)

lemma merge_content_only: "merge_message m (content_only x) = m\<lparr> content_msg := x \<rparr>"
  by (simp add: merge_message_def content_only_def)

lemma broadcast_fan_out: "broadcast cls c f = fan_out c [f] cls"
  by (auto simp add: broadcast_def fan_out_def deliver_def viewer_def send_def)

lemma deliver_deliver: "deliver c gs (deliver c fs cl) = deliver c (fs @ gs) cl"
  by (simp add: deliver_def viewer_def)

lemma fan_out_fan_out: "fan_out c gs (fan_out c fs cls) = fan_out c (fs @ gs) cls"
  by (simp add: fan_out_def deliver_deliver case_prod_unfold comp_def)

lemma deliver_Nil: "deliver c [] cl = cl"
  by (simp add: deliver_def)

lemma fan_out_Nil: "fan_out c [] cls = cls"
  by (simp add: fan_out_def deliver_Nil)

lemma map_of_fan_out: "map_of (fan_out c fs cls) k = map_option (deliver c fs) (map_of cls k)"
  by (simp add: fan_out_def map_of_map)

lemma keys_fan_out: "map fst (fan_out c fs cls) = map fst cls"
  by (simp add: fan_out_def case_prod_unfold comp_def)

section \<open>The streaming loop\<close>

lemma good_prefixes_Cons:
  "filter (\<lambda>p. last (d # p) \<noteq> []) (prefixes ds) =
     (if d \<noteq> [] then [[]] else []) @ filter (\<lambda>p. p \<noteq> [] \<and> last p \<noteq> []) (prefixes ds)"
  by (cases ds) (simp_all add: filter_map comp_def)

lemma good_prefixes_step:
  "filter (\<lambda>p. p \<noteq> [] \<and> last p \<noteq> []) (prefixes (d # ds)) =
     map ((#) d) ((if d \<noteq> [] then [[]] else []) @
                  filter (\<lambda>p. p \<noteq> [] \<and> last p \<noteq> []) (prefixes ds))"
proof -
  have "filter (\<lambda>p. p \<noteq> [] \<and> last p \<noteq> []) (prefixes (d # ds)) =
          map ((#) d) (filter (\<lambda>p. last (d # p) \<noteq> []) (prefixes ds))"
    by (simp add: filter_map comp_def del: last.simps)
  then show ?thesis
    by (simp only: good_prefixes_Cons)
qed

lemma snapshots_Cons:
  "map (\<lambda>p. full @ concat p) (filter (\<lambda>p. p \<noteq> [] \<and> last p \<noteq> []) (prefixes (d # ds))) =
     (if d \<noteq> [] then [full @ d] else []) @
     map (\<lambda>p. (full @ d) @ concat p) (filter (\<lambda>p. p \<noteq> [] \<and> last p \<noteq> []) (prefixes ds))"
  by (simp only: good_prefixes_step) (simp add: comp_def)

lemma count_snapshots: "length (snapshots ds) = length (filter (\<lambda>d. d \<noteq> []) ds)"
  unfolding snapshots_def
  by (induction ds) (simp_all only: good_prefixes_step, simp_all)

lemma relay_loop_snd:
  "snd (relay_loop s c mid full chs) = full @ concat (map delta_content chs)"
  by (induction chs arbitrary: s full) simp_all

lemma relay_loop_append:
  "relay_loop s c mid full (xs @ ys) =
     relay_loop (fst (relay_loop s c mid full xs)) c mid (snd (relay_loop s c mid full xs)) ys"
  by (induction xs arbitrary: s full) simp_all

lemma relay_loop_clients:
  "clients (fst (relay_loop s c mid full chs)) =
     fan_out c (map (\<lambda>p. message_update mid (full @ concat p))
                  (filter (\<lambda>p. p \<noteq> [] \<and> last p \<noteq> []) (prefixes (map delta_content chs))))
       (clients s)"
proof (induction chs arbitrary: s full)
  case Nil
  show ?case by (simp add: fan_out_Nil)
next
  case (Cons ch rest)
  let ?d = "delta_content ch"
  let ?ds = "map delta_content rest"
  have split: "map (\<lambda>p. full @ concat p)
                 (filter (\<lambda>p. p \<noteq> [] \<and> last p \<noteq> []) (prefixes (?d # ?ds))) =
               (if ?d \<noteq> [] then [full @ ?d] else []) @
               map (\<lambda>p. (full @ ?d) @ concat p)
                 (filter (\<lambda>p. p \<noteq> [] \<and> last p \<noteq> []) (prefixes ?ds))"
    by (rule snapshots_Cons)
  have as_map: "\<And>acc ps. map (\<lambda>p. message_update mid (acc @ concat p)) ps =
                  map (message_update mid) (map (\<lambda>p. acc @ concat p) ps)"
    by simp
  show ?case
  proof (cases "?d = []")
    case True
    then show ?thesis
      using Cons.IH [of s full] split by (simp only: as_map relay_loop.simps list.map) simp
  next
    case False
    then show ?thesis
      using Cons.IH split
      by (simp only: as_map relay_loop.simps list.map)
         (simp add: broadcast_fan_out fan_out_fan_out)
  qed
qed

lemma relay_loop_getMessage:
  "getMessage (storage s) mid = Some p \<Longrightarrow> content_msg p = full \<Longrightarrow>
   getMessage (storage (fst (relay_loop s c mid full chs))) mid =
     Some (p\<lparr> content_msg := full @ concat (map delta_content chs) \<rparr>)"
proof (induction chs arbitrary: s full p)
  case Nil
  then show ?case by simp
next
  case (Cons ch rest)
  show ?case
  proof (cases "delta_content ch = []")
    case True
    then show ?thesis using Cons by simp
  next
    case False
    let ?full = "full @ delta_content ch"
    let ?s = "s\<lparr> storage := snd (updateMessage (storage s) mid (content_only ?full)),
                 clients := broadcast (clients s) c (message_update mid ?full) \<rparr>"
    have "getMessage (storage ?s) mid = Some (p\<lparr> content_msg := ?full \<rparr>)"
      using Cons.prems(1) by (simp add: getMessage_updateMessage merge_content_only)
    from Cons.IH [OF this, of ?full] False show ?thesis by simp
  qed
qed

lemma relay_loop_other:
  "j \<noteq> mid \<Longrightarrow>
   getMessage (storage (fst (relay_loop s c mid full chs))) j = getMessage (storage s) j"
  by (induction chs arbitrary: s full) (simp_all add: getMessage_updateMessage)

lemma relay_loop_frames:
  "clients (fst (relay_loop s c mid [] chs)) =
     fan_out c (map (message_update mid) (snapshots (map delta_content chs))) (clients s)"
  using relay_loop_clients [of s c mid "[]" chs] by (simp add: snapshots_def comp_def)

lemma relay_done_clients:
  "clients (relay s c mid (Stream chs Done)) =
     fan_out c (map (message_update mid) (snapshots (map delta_content chs)) @
                [message_complete mid
                   (map_option (\<lambda>m. m\<lparr> content_msg := concat (map delta_content chs) \<rparr>)
                      (getMessage (storage (fst (relay_loop s c mid [] chs))) mid))])
       (clients s)"
  using relay_loop_snd [of s c mid "[]" chs]
  by (simp add: relay_def relay_complete_def Let_def case_prod_unfold fst_updateMessage
      merge_content_only relay_loop_frames broadcast_fan_out fan_out_fan_out)

lemma relay_done_getMessage:
  "getMessage (storage (relay s c mid (Stream chs Done))) j =
     (if j = mid
      then map_option (\<lambda>m. m\<lparr> content_msg := concat (map delta_content chs) \<rparr>)
             (getMessage (storage (fst (relay_loop s c mid [] chs))) mid)
      else getMessage (storage (fst (relay_loop s c mid [] chs))) j)"
  using relay_loop_snd [of s c mid "[]" chs]
  by (simp add: relay_def relay_complete_def Let_def case_prod_unfold getMessage_updateMessage
      merge_content_only)

lemma relay_catch_clients:
  "clients (relay_catch s c mid) =
     fan_out c [message_error mid ''Error generating response''] (clients s)"
  by (simp add: relay_catch_def broadcast_fan_out)

lemma relay_catch_getMessage:
  "getMessage (storage (relay_catch s c mid)) j =
     (if j = mid then map_option (\<lambda>m. m\<lparr> content_msg := fallback_content \<rparr>)
                        (getMessage (storage s) mid)
      else getMessage (storage s) j)"
  by (simp add: relay_catch_def getMessage_updateMessage merge_content_only)

lemma relay_failed_clients:
  "failed up \<Longrightarrow>
   clients (relay s c mid up) =
     fan_out c (map (message_update mid) (snapshots (deltas up)) @
                [message_error mid ''Error generating response'']) (clients s)"
  by (cases up)
     (simp_all add: relay_def Let_def case_prod_unfold relay_catch_clients relay_loop_frames
        fan_out_fan_out snapshots_def)

lemma relay_loop_getMessage_content:
  "getMessage (storage s) mid = Some p \<Longrightarrow>
   \<exists>x. getMessage (storage (fst (relay_loop s c mid full chs))) mid =
         Some (p\<lparr> content_msg := x \<rparr>)"
proof (induction chs arbitrary: s full p)
  case Nil
  have "p = p\<lparr> content_msg := content_msg p \<rparr>" by simp
  with Nil show ?case by (metis fst_conv relay_loop.simps(1))
next
  case (Cons ch rest)
  show ?case
  proof (cases "delta_content ch = []")
    case True
    then show ?thesis using Cons by simp
  next
    case False
    let ?full = "full @ delta_content ch"
    let ?s = "s\<lparr> storage := snd (updateMessage (storage s) mid (content_only ?full)),
                 clients := broadcast (clients s) c (message_update mid ?full) \<rparr>"
    have "getMessage (storage ?s) mid = Some (p\<lparr> content_msg := ?full \<rparr>)"
      using Cons.prems(1) by (simp add: getMessage_updateMessage merge_content_only)
    from Cons.IH [OF this, of ?full] False show ?thesis by simp
  qed
qed

lemma relay_failed_getMessage:
  assumes "failed up" and "getMessage (storage s) mid = Some p"
  shows "getMessage (storage (relay s c mid up)) mid =
           Some (p\<lparr> content_msg := fallback_content \<rparr>)"
proof (cases up)
  case Rejected
  with assms show ?thesis by (simp add: relay_def relay_catch_getMessage)
next
  case (Stream chs e)
  obtain x where "getMessage (storage (fst (relay_loop s c mid [] chs))) mid =
                    Some (p\<lparr> content_msg := x \<rparr>)"
    using relay_loop_getMessage_content [OF assms(2)] by blast
  with Stream assms(1) show ?thesis
    by (simp add: relay_def case_prod_unfold relay_catch_getMessage)
qed

section \<open>Claims\<close>

text \<open>
  C1. Streaming persists the concatenation of the deltas. Let the placeholder \<open>p\<close> be
  stored under \<open>mid\<close> with empty content, and let the stream yield the chunks \<open>chs\<close>.
  After the loop has processed the first \<open>k\<close> chunks, the content stored for \<open>mid\<close>
  is the concatenation of the first \<open>k\<close> deltas (and the loop continues from that state
  with the remaining chunks). After a normal end of the stream the stored content is the
  concatenation of all deltas, and what reached every viewer of the chat is one
  \<open>message-update\<close> per snapshot followed by one \<open>message-complete\<close>: exactly one
  \<open>message-complete\<close> frame is published. The model runs one exchange on its own; no
  other request interleaves with it.
\<close>

theorem stream_persists_concatenation:
  assumes "getMessage (storage s) mid = Some p" and "content_msg p = []"
  shows "getMessage (storage (fst (relay_loop s c mid [] (take k chs)))) mid =
           Some (p\<lparr> content_msg := concat (take k (map delta_content chs)) \<rparr>)
       \<and> relay_loop s c mid [] chs =
           relay_loop (fst (relay_loop s c mid [] (take k chs))) c mid
             (concat (take k (map delta_content chs))) (drop k chs)
       \<and> getMessage (storage (relay s c mid (Stream chs Done))) mid =
           Some (p\<lparr> content_msg := concat (map delta_content chs) \<rparr>)
       \<and> clients (relay s c mid (Stream chs Done)) =
           fan_out c
             (map (message_update mid) (snapshots (map delta_content chs)) @
              [message_complete mid (Some (p\<lparr> content_msg := concat (map delta_content chs) \<rparr>))])
             (clients s)
       \<and> length (filter is_complete
             (map (message_update mid) (snapshots (map delta_content chs)) @
              [message_complete mid (Some (p\<lparr> content_msg := concat (map delta_content chs) \<rparr>))]))
           = 1"
proof -
  have loop: "\<And>xs. getMessage (storage (fst (relay_loop s c mid [] xs))) mid =
                Some (p\<lparr> content_msg := concat (map delta_content xs) \<rparr>)"
    using relay_loop_getMessage [OF assms(1), of "[]" c] assms(2) by simp
  have a: "getMessage (storage (fst (relay_loop s c mid [] (take k chs)))) mid =
             Some (p\<lparr> content_msg := concat (take k (map delta_content chs)) \<rparr>)"
    using loop [of "take k chs"] by (simp add: take_map)
  have b: "relay_loop s c mid [] chs =
             relay_loop (fst (relay_loop s c mid [] (take k chs))) c mid
               (concat (take k (map delta_content chs))) (drop k chs)"
    using relay_loop_append [of s c mid "[]" "take k chs" "drop k chs"]
    by (simp add: relay_loop_snd take_map)
  have c: "getMessage (storage (relay s c mid (Stream chs Done))) mid =
             Some (p\<lparr> content_msg := concat (map delta_content chs) \<rparr>)"
    by (simp add: relay_done_getMessage loop)
  have d: "clients (relay s c mid (Stream chs Done)) =
             fan_out c
               (map (message_update mid) (snapshots (map delta_content chs)) @
                [message_complete mid (Some (p\<lparr> content_msg := concat (map delta_content chs) \<rparr>))])
               (clients s)"
    by (simp add: relay_done_clients loop)
  have e: "filter is_complete (map (message_update mid) xs) = []" for xs
    by (induction xs) simp_all
  show ?thesis using a b c d by (simp add: e)
qed

theorem stream_persists_concatenation_witness:
  "getMessage (storage demo_started) 2 = Some demo_placeholder
   \<and> content_msg demo_placeholder = []
   \<and> getMessage (storage (fst (relay_loop demo_started 1 2 [] (take 1 demo_chunks)))) 2 =
       Some (demo_placeholder\<lparr> content_msg := ''Hel'' \<rparr>)
   \<and> getMessage (storage (relay demo_started 1 2 (Stream demo_chunks Done))) 2 =
       Some (demo_placeholder\<lparr> content_msg := ''Hello!'' \<rparr>)
   \<and> map_of (clients (relay demo_started 1 2 (Stream demo_chunks Done))) ''a'' =
       Some \<lparr> ws = \<lparr> readyState = OPEN,
                     sent = [message_update 2 ''Hel'', message_update 2 ''Hello!'',
                             message_complete 2 (Some (demo_placeholder\<lparr> content_msg := ''Hello!'' \<rparr>))] \<rparr>,
              chatId = Some 1 \<rparr>"
proof -
  have h1: "getMessage (storage demo_started) 2 = Some demo_placeholder"
    by (simp add: demo_started_def post_message_request_def demo_request_def demo_server_def
        demo_storage_def MemStorage_new_def createChat_def getChat_def getBot_def Let_def
        insertMessageSchema_def createMessage_def hasApiKey_def getSettings_def opt_field_def
        demo_env_def getMessage_def demo_placeholder_def)
  have h2: "content_msg demo_placeholder = []"
    by (simp add: demo_placeholder_def)
  have cl: "clients demo_started = demo_clients"
    by (simp add: demo_started_def post_message_request_def demo_request_def demo_server_def
        demo_storage_def MemStorage_new_def createChat_def getChat_def getBot_def Let_def
        insertMessageSchema_def createMessage_def hasApiKey_def getSettings_def opt_field_def
        demo_env_def)
  have ds: "map delta_content demo_chunks = [''Hel'', [], ''lo!'']"
    by (simp add: demo_chunks_def text_chunk_def delta_content_def)
  have sn: "snapshots [''Hel'', [], ''lo!''] = [''Hel'', ''Hello!'']"
    by (simp add: snapshots_def)
  from stream_persists_concatenation [OF h1 h2, of 1 1 demo_chunks] h1 h2
  show ?thesis
    by (simp add: ds sn cl map_of_fan_out demo_clients_def deliver_def viewer_def)
qed

lemma no_complete_in_updates: "filter is_complete (map (message_update mid) xs) = []"
  by (induction xs) simp_all

lemma no_error_in_updates: "filter is_error (map (message_update mid) xs) = []"
  by (induction xs) simp_all

lemma all_updates: "filter is_update (map (message_update mid) xs) = map (message_update mid) xs"
  by (induction xs) simp_all

lemma demo_started_messages:
  "messages (storage demo_started) =
     [(1, \<lparr> id_msg = 1, chatId_msg = 1, content_msg = ''hi'', role_msg = ''user'',
             createdAt_msg = 1, files_msg = None \<rparr>),
      (2, demo_placeholder)]"
  by (simp add: demo_started_def post_message_request_def demo_request_def demo_server_def
      demo_storage_def MemStorage_new_def createChat_def getChat_def getBot_def Let_def
      insertMessageSchema_def createMessage_def hasApiKey_def getSettings_def opt_field_def
      demo_env_def demo_placeholder_def)

lemma demo_started_clients: "clients demo_started = demo_clients"
  by (simp add: demo_started_def post_message_request_def demo_request_def demo_server_def
      demo_storage_def MemStorage_new_def createChat_def getChat_def getBot_def Let_def
      insertMessageSchema_def createMessage_def hasApiKey_def getSettings_def opt_field_def
      demo_env_def)

lemma demo_deltas: "map delta_content demo_chunks = [''Hel'', [], ''lo!'']"
  by (simp add: demo_chunks_def text_chunk_def delta_content_def)

lemma demo_snapshots: "snapshots [''Hel'', [], ''lo!''] = [''Hel'', ''Hello!'']"
  by (simp add: snapshots_def)

text \<open>
  C2. Upstream failure. When the completion fails, whether the call is rejected or the
  stream throws after any number of chunks, the content stored for the placeholder at
  the end is the fixed fallback text; what reached every viewer of the chat is the
  updates of the deltas that arrived, followed by one \<open>message-error\<close>: exactly one
  \<open>message-error\<close> frame and no \<open>message-complete\<close> frame is published.
\<close>

theorem failure_persists_fallback:
  assumes "failed up" and "getMessage (storage s) mid = Some p"
  shows "getMessage (storage (relay s c mid up)) mid =
           Some (p\<lparr> content_msg :=
                   ''Sorry, I had trouble generating a response. Please try again.'' \<rparr>)
       \<and> clients (relay s c mid up) =
           fan_out c
             (map (message_update mid) (snapshots (deltas up)) @
              [message_error mid ''Error generating response''])
             (clients s)
       \<and> length (filter is_error
             (map (message_update mid) (snapshots (deltas up)) @
              [message_error mid ''Error generating response''])) = 1
       \<and> filter is_complete
             (map (message_update mid) (snapshots (deltas up)) @
              [message_error mid ''Error generating response'']) = []"
  using relay_failed_getMessage [OF assms, of c] relay_failed_clients [OF assms(1), of s c mid]
  by (simp add: no_complete_in_updates no_error_in_updates fallback_content_def)

theorem failure_persists_fallback_witness:
  "failed (Stream demo_chunks Failed)
   \<and> getMessage (storage demo_started) 2 = Some demo_placeholder
   \<and> getMessage (storage (relay demo_started 1 2 (Stream demo_chunks Failed))) 2 =
       Some (demo_placeholder\<lparr> content_msg :=
               ''Sorry, I had trouble generating a response. Please try again.'' \<rparr>)
   \<and> map_of (clients (relay demo_started 1 2 (Stream demo_chunks Failed))) ''a'' =
       Some \<lparr> ws = \<lparr> readyState = OPEN,
                     sent = [message_update 2 ''Hel'', message_update 2 ''Hello!'',
                             message_error 2 ''Error generating response''] \<rparr>,
              chatId = Some 1 \<rparr>
   \<and> failed Rejected
   \<and> getMessage (storage (relay demo_started 1 2 Rejected)) 2 =
       Some (demo_placeholder\<lparr> content_msg :=
               ''Sorry, I had trouble generating a response. Please try again.'' \<rparr>)
   \<and> map_of (clients (relay demo_started 1 2 Rejected)) ''a'' =
       Some \<lparr> ws = \<lparr> readyState = OPEN,
                     sent = [message_error 2 ''Error generating response''] \<rparr>,
              chatId = Some 1 \<rparr>"
proof -
  have h1: "failed (Stream demo_chunks Failed)" by simp
  have h2: "getMessage (storage demo_started) 2 = Some demo_placeholder"
    by (simp add: getMessage_def demo_started_messages)
  have h3: "failed Rejected" by simp
  from failure_persists_fallback [OF h1 h2, of 1] failure_persists_fallback [OF h3 h2, of 1] h2
  show ?thesis
    by (simp add: demo_deltas demo_snapshots demo_started_clients map_of_fan_out
        demo_clients_def deliver_def viewer_def snapshots_def)
qed

text \<open>
  The frames of a whole stream, whatever its end: the updates, then one frame that is
  not an update.
\<close>

lemma relay_stream_clients:
  "\<exists>t. \<not> is_update t \<and>
       clients (relay s c mid (Stream chs e)) =
         fan_out c (map (message_update mid) (snapshots (map delta_content chs)) @ [t])
           (clients s)"
proof (cases e)
  case Done
  show ?thesis unfolding Done relay_done_clients
    by (rule exI [of _ "message_complete mid
          (map_option (\<lambda>m. m\<lparr> content_msg := concat (map delta_content chs) \<rparr>)
             (getMessage (storage (fst (relay_loop s c mid [] chs))) mid))"]) simp
next
  case Failed
  have "failed (Stream chs Failed)" by simp
  from relay_failed_clients [OF this, of s c mid] show ?thesis unfolding Failed
    by (intro exI [of _ "message_error mid ''Error generating response''"]) simp
qed

text \<open>
  C9. Empty deltas. A chunk whose text is empty leaves the server and the accumulator
  as they are: the loop has the same result with and without it, wherever it stands in
  the stream, so no snapshot is stored and no frame sent for it. For a viewer of the
  chat, the frames the exchange appends to its socket contain as many
  \<open>message-update\<close> frames as the stream has chunks with non-empty text.
\<close>

theorem empty_delta_not_relayed:
  "(delta_content ch = [] \<longrightarrow>
      relay_loop s c mid full (xs @ ch # ys) = relay_loop s c mid full (xs @ ys))
   \<and> (map_of (clients s) k = Some cl \<and> viewer cl c \<longrightarrow>
      (\<exists>fs. map_of (clients (relay s c mid (Stream chs e))) k =
               Some (cl\<lparr> ws := (ws cl)\<lparr> sent := sent (ws cl) @ fs \<rparr> \<rparr>)
          \<and> length (filter is_update fs) =
              length (filter (\<lambda>ch. delta_content ch \<noteq> []) chs)))"
proof (intro conjI impI)
  assume "delta_content ch = []"
  then show "relay_loop s c mid full (xs @ ch # ys) = relay_loop s c mid full (xs @ ys)"
    by (simp add: relay_loop_append)
next
  assume v: "map_of (clients s) k = Some cl \<and> viewer cl c"
  obtain t where t: "\<not> is_update t"
    and cl: "clients (relay s c mid (Stream chs e)) =
               fan_out c (map (message_update mid) (snapshots (map delta_content chs)) @ [t])
                 (clients s)"
    using relay_stream_clients by blast
  let ?fs = "map (message_update mid) (snapshots (map delta_content chs)) @ [t]"
  have "map_of (clients (relay s c mid (Stream chs e))) k =
          Some (cl\<lparr> ws := (ws cl)\<lparr> sent := sent (ws cl) @ ?fs \<rparr> \<rparr>)"
    using v by (simp add: cl map_of_fan_out deliver_def)
  moreover have "length (filter is_update ?fs) =
                   length (filter (\<lambda>ch. delta_content ch \<noteq> []) chs)"
    using t by (simp add: all_updates count_snapshots filter_map comp_def)
  ultimately show "\<exists>fs. map_of (clients (relay s c mid (Stream chs e))) k =
               Some (cl\<lparr> ws := (ws cl)\<lparr> sent := sent (ws cl) @ fs \<rparr> \<rparr>)
          \<and> length (filter is_update fs) =
              length (filter (\<lambda>ch. delta_content ch \<noteq> []) chs)"
    by blast
qed

theorem empty_delta_not_relayed_witness:
  "delta_content (Chunk []) = []
   \<and> relay_loop demo_started 1 2 [] ([text_chunk ''Hel''] @ Chunk [] # [text_chunk ''lo!'']) =
       relay_loop demo_started 1 2 [] ([text_chunk ''Hel''] @ [text_chunk ''lo!''])
   \<and> map_of (clients demo_started) ''a'' =
       Some \<lparr> ws = \<lparr> readyState = OPEN, sent = [] \<rparr>, chatId = Some 1 \<rparr>
   \<and> viewer \<lparr> ws = \<lparr> readyState = OPEN, sent = [] \<rparr>, chatId = Some 1 \<rparr> 1
   \<and> (\<exists>fs. map_of (clients (relay demo_started 1 2 (Stream demo_chunks Done))) ''a'' =
              Some \<lparr> ws = \<lparr> readyState = OPEN, sent = fs \<rparr>, chatId = Some 1 \<rparr>
         \<and> length (filter is_update fs) = 2)"
proof -
  have h1: "delta_content (Chunk []) = []" by (simp add: delta_content_def)
  have h2: "map_of (clients demo_started) ''a'' =
              Some \<lparr> ws = \<lparr> readyState = OPEN, sent = [] \<rparr>, chatId = Some 1 \<rparr>"
    by (simp add: demo_started_clients demo_clients_def)
  have h3: "viewer \<lparr> ws = \<lparr> readyState = OPEN, sent = [] \<rparr>, chatId = Some 1 \<rparr> 1"
    by (simp add: viewer_def)
  have n: "length (filter (\<lambda>ch. delta_content ch \<noteq> []) demo_chunks) = 2"
    by (simp add: demo_chunks_def text_chunk_def delta_content_def)
  from empty_delta_not_relayed [of "Chunk []" demo_started 1 2 "[]" "[text_chunk ''Hel'']"
         "[text_chunk ''lo!'']" "''a''"
         "\<lparr> ws = \<lparr> readyState = OPEN, sent = [] \<rparr>, chatId = Some 1 \<rparr>" demo_chunks Done]
    h1 h2 h3 n
  show ?thesis by simp
qed

lemma hasApiKey_createMessage: "hasApiKey (snd (createMessage st ins t)) env = hasApiKey st env"
  by (simp add: hasApiKey_def getSettings_def createMessage_def Let_def)

lemma getBot_createMessage: "getBot (snd (createMessage st ins t)) i = getBot st i"
  by (simp add: getBot_def createMessage_def Let_def)

lemma messageCurrentId_createMessage:
  "messageCurrentId (snd (createMessage st ins t)) = messageCurrentId st + 1"
  by (simp add: createMessage_def Let_def)

lemma fst_createMessage:
  "fst (createMessage st ins t) =
     \<lparr> id_msg = messageCurrentId st, chatId_msg = chatId_ins ins,
       content_msg = content_ins ins, role_msg = role_ins ins,
       createdAt_msg = t, files_msg = files_ins ins \<rparr>"
  by (simp add: createMessage_def Let_def)

text \<open>The request that passes every check, and the one stopped at the key check.\<close>

lemma post_message_request_accepted:
  assumes "chatId_param req = Some c" and "getChat (storage s) c = Some chat"
    and "content_req req = Some text" and "hasApiKey (storage s) env"
    and "getBot (storage s) (botId_chat chat) = Some b"
  shows "post_message_request s env t1 t2 req =
     (Response 201 (Exchange_body
        \<lparr> id_msg = messageCurrentId (storage s), chatId_msg = c, content_msg = text,
          role_msg = ''user'', createdAt_msg = t1,
          files_msg = (if files_req req = [] then None
                       else Some (map to_attachment (files_req req))) \<rparr>
        \<lparr> id_msg = messageCurrentId (storage s) + 1, chatId_msg = c, content_msg = [],
          role_msg = ''assistant'', createdAt_msg = t2, files_msg = None \<rparr>),
      s\<lparr> storage :=
           snd (createMessage
                  (snd (createMessage (storage s)
                          \<lparr> chatId_ins = c, content_ins = text, role_ins = ''user'',
                            files_ins = (if files_req req = [] then None
                                         else Some (map to_attachment (files_req req))) \<rparr> t1))
                  \<lparr> chatId_ins = c, content_ins = [], role_ins = ''assistant'',
                    files_ins = None \<rparr> t2) \<rparr>,
      Some (c, messageCurrentId (storage s) + 1))"
  using assms
  by (simp add: post_message_request_def insertMessageSchema_def Let_def case_prod_unfold
      hasApiKey_createMessage getBot_createMessage fst_createMessage
      messageCurrentId_createMessage)

lemma post_message_request_no_key:
  assumes "chatId_param req = Some c" and "getChat (storage s) c = Some chat"
    and "content_req req = Some text" and "\<not> hasApiKey (storage s) env"
  shows "post_message_request s env t1 t2 req =
     (Response 400 (Error_body
        ''API key not configured in settings or environment variables (.env)''),
      s\<lparr> storage :=
           snd (createMessage (storage s)
                  \<lparr> chatId_ins = c, content_ins = text, role_ins = ''user'',
                    files_ins = (if files_req req = [] then None
                                 else Some (map to_attachment (files_req req))) \<rparr> t1) \<rparr>,
      None)"
  using assms
  by (simp add: post_message_request_def insertMessageSchema_def Let_def case_prod_unfold
      hasApiKey_createMessage)

lemma demo_chat:
  "getChat (storage demo_server) 1 =
     Some \<lparr> id_chat = 1, botId_chat = 1, title_chat = ''Demo'', createdAt_chat = 0 \<rparr>"
  by (simp add: demo_server_def demo_storage_def MemStorage_new_def createChat_def getChat_def Let_def)

lemma demo_bot:
  "getBot (storage demo_server) 1 =
     Some \<lparr> id_bot = 1, name_bot = ''AI Assistant'', avatar_bot = ''A'',
            color_bot = ''#0078D4'', description_bot = Some ''General AI Assistant'',
            model_bot = ''gpt-4o'', createdAt_bot = 0 \<rparr>"
  by (simp add: demo_server_def demo_storage_def MemStorage_new_def createChat_def getBot_def Let_def)

lemma demo_key: "hasApiKey (storage demo_server) demo_env"
  by (simp add: hasApiKey_def demo_env_def)

lemma demo_no_key: "\<not> hasApiKey (storage demo_server) empty_env"
  by (simp add: hasApiKey_def empty_env_def demo_server_def demo_storage_def MemStorage_new_def
      createChat_def getSettings_def opt_field_def Let_def)

lemma demo_next_id: "messageCurrentId (storage demo_server) = 1"
  by (simp add: demo_server_def demo_storage_def MemStorage_new_def createChat_def Let_def)

text \<open>
  C3, as stated, fails: the chat exists and the content is \<open>hi\<close>, but neither the
  stored settings nor the environment holds a key, and the answer is 400.
\<close>

theorem placeholder_empty_counterexample:
  "getChat (storage demo_server) 1 =
     Some \<lparr> id_chat = 1, botId_chat = 1, title_chat = ''Demo'', createdAt_chat = 0 \<rparr>
   \<and> chatId_param demo_request = Some 1
   \<and> content_req demo_request = Some ''hi''
   \<and> fst (post_message_request demo_server empty_env 1 2 demo_request) =
       Response 400 (Error_body
         ''API key not configured in settings or environment variables (.env)'')"
proof -
  have c: "chatId_param demo_request = Some 1" and t: "content_req demo_request = Some ''hi''"
    by (simp_all add: demo_request_def)
  from post_message_request_no_key [OF c demo_chat t demo_no_key, of 1 2] c t demo_chat
  show ?thesis by simp
qed

text \<open>
  C3, amended. For a request whose chat id names a chat, whose content is a string,
  with an API key resolvable and the chat's bot present, the response is 201 with the
  stored user message and a placeholder assistant message whose content is empty; at
  that moment, before any streaming, the store holds both messages as returned, and the
  handler goes on to stream into the placeholder.
\<close>

theorem placeholder_empty_at_response:
  assumes "chatId_param req = Some c" and "getChat (storage s) c = Some chat"
    and "content_req req = Some text" and "hasApiKey (storage s) env"
    and "getBot (storage s) (botId_chat chat) = Some b"
  shows "fst (post_message_request s env t1 t2 req) =
           Response 201 (Exchange_body
             \<lparr> id_msg = messageCurrentId (storage s), chatId_msg = c, content_msg = text,
               role_msg = ''user'', createdAt_msg = t1,
               files_msg = (if files_req req = [] then None
                            else Some (map to_attachment (files_req req))) \<rparr>
             \<lparr> id_msg = messageCurrentId (storage s) + 1, chatId_msg = c, content_msg = [],
               role_msg = ''assistant'', createdAt_msg = t2, files_msg = None \<rparr>)
       \<and> snd (snd (post_message_request s env t1 t2 req)) =
           Some (c, messageCurrentId (storage s) + 1)
       \<and> getMessage (storage (fst (snd (post_message_request s env t1 t2 req))))
           (messageCurrentId (storage s)) =
           Some \<lparr> id_msg = messageCurrentId (storage s), chatId_msg = c, content_msg = text,
                  role_msg = ''user'', createdAt_msg = t1,
                  files_msg = (if files_req req = [] then None
                               else Some (map to_attachment (files_req req))) \<rparr>
       \<and> getMessage (storage (fst (snd (post_message_request s env t1 t2 req))))
           (messageCurrentId (storage s) + 1) =
           Some \<lparr> id_msg = messageCurrentId (storage s) + 1, chatId_msg = c, content_msg = [],
                  role_msg = ''assistant'', createdAt_msg = t2, files_msg = None \<rparr>"
  unfolding post_message_request_accepted [OF assms]
  by (simp add: getMessage_createMessage messageCurrentId_createMessage fst_createMessage)

theorem placeholder_empty_at_response_witness:
  "chatId_param demo_request = Some 1
   \<and> getChat (storage demo_server) 1 =
       Some \<lparr> id_chat = 1, botId_chat = 1, title_chat = ''Demo'', createdAt_chat = 0 \<rparr>
   \<and> content_req demo_request = Some ''hi''
   \<and> hasApiKey (storage demo_server) demo_env
   \<and> getBot (storage demo_server) 1 =
       Some \<lparr> id_bot = 1, name_bot = ''AI Assistant'', avatar_bot = ''A'',
              color_bot = ''#0078D4'', description_bot = Some ''General AI Assistant'',
              model_bot = ''gpt-4o'', createdAt_bot = 0 \<rparr>
   \<and> fst (post_message_request demo_server demo_env 1 2 demo_request) =
       Response 201 (Exchange_body
         \<lparr> id_msg = 1, chatId_msg = 1, content_msg = ''hi'', role_msg = ''user'',
           createdAt_msg = 1, files_msg = None \<rparr>
         \<lparr> id_msg = 2, chatId_msg = 1, content_msg = [], role_msg = ''assistant'',
           createdAt_msg = 2, files_msg = None \<rparr>)
   \<and> getMessage (storage (fst (snd (post_message_request demo_server demo_env 1 2 demo_request))))
       2 =
       Some \<lparr> id_msg = 2, chatId_msg = 1, content_msg = [], role_msg = ''assistant'',
              createdAt_msg = 2, files_msg = None \<rparr>"
proof -
  have c: "chatId_param demo_request = Some 1" and t: "content_req demo_request = Some ''hi''"
    and f: "files_req demo_request = []"
    by (simp_all add: demo_request_def)
  from placeholder_empty_at_response [OF c demo_chat t demo_key, of _ 1 2] demo_bot
    c t f demo_chat demo_key demo_next_id
  show ?thesis by simp
qed


text \<open>
  Without a key the handler returns before the second \<open>createMessage\<close>: it never
  streams, answers something other than 201, leaves the clients alone, and the store is
  either untouched or extended by one message of role \<open>user\<close>.
\<close>

lemma no_key_request:
  assumes "\<not> hasApiKey (storage s) env"
  shows "snd (snd (post_message_request s env t1 t2 req)) = None
       \<and> status (fst (post_message_request s env t1 t2 req)) \<noteq> 201
       \<and> clients (fst (snd (post_message_request s env t1 t2 req))) = clients s
       \<and> (storage (fst (snd (post_message_request s env t1 t2 req))) = storage s
          \<or> (\<exists>ins. role_ins ins = ''user'' \<and>
                storage (fst (snd (post_message_request s env t1 t2 req))) =
                  snd (createMessage (storage s) ins t1)))"
proof (cases "chatId_param req")
  case None
  then show ?thesis by (simp add: post_message_request_def)
next
  case (Some c)
  note c = this
  show ?thesis
  proof (cases "getChat (storage s) c")
    case None
    with c show ?thesis by (simp add: post_message_request_def)
  next
    case (Some chat)
    note chat = this
    show ?thesis
    proof (cases "content_req req")
      case None
      with c chat show ?thesis
        by (simp add: post_message_request_def insertMessageSchema_def)
    next
      case (Some str)
      let ?R = "post_message_request s env t1 t2 req"
      let ?ins = "\<lparr> chatId_ins = c, content_ins = str, role_ins = ''user'',
                    files_ins = (if files_req req = [] then None
                                 else Some (map to_attachment (files_req req))) \<rparr>"
      have eq: "?R = (Response 400 (Error_body
                  ''API key not configured in settings or environment variables (.env)''),
                s\<lparr> storage := snd (createMessage (storage s) ?ins t1) \<rparr>, None)"
        by (rule post_message_request_no_key [OF c chat Some assms])
      have "role_ins ?ins = ''user'' \<and>
            storage (fst (snd ?R)) = snd (createMessage (storage s) ?ins t1)"
        by (simp add: eq)
      then have "\<exists>ins. role_ins ins = ''user'' \<and>
                   storage (fst (snd ?R)) = snd (createMessage (storage s) ins t1)"
        by (rule exI)
      moreover have "snd (snd ?R) = None" "status (fst ?R) \<noteq> 201"
        "clients (fst (snd ?R)) = clients s"
        by (simp_all add: eq)
      ultimately show ?thesis by blast
    qed
  qed
qed

text \<open>
  C7. No API key. When neither the stored settings nor the environment holds a key,
  the whole handler, whatever the upstream would have done, never answers 201, persists
  no assistant message (every assistant message of the final store was already there),
  sends nothing to any client, and, for a request that reaches the key check (the chat
  exists and the content is a string), answers 400 with the key message.
\<close>

theorem no_api_key_no_placeholder:
  assumes "\<not> hasApiKey (storage s) env"
  shows "status (fst (post_message s env t1 t2 req up)) \<noteq> 201
       \<and> (\<forall>j m. getMessage (storage (snd (post_message s env t1 t2 req up))) j = Some m
                 \<and> role_msg m = ''assistant''
               \<longrightarrow> getMessage (storage s) j = Some m)
       \<and> clients (snd (post_message s env t1 t2 req up)) = clients s
       \<and> (\<forall>c chat text.
             chatId_param req = Some c \<and> getChat (storage s) c = Some chat
             \<and> content_req req = Some text
           \<longrightarrow> fst (post_message s env t1 t2 req up) =
                 Response 400 (Error_body
                   ''API key not configured in settings or environment variables (.env)''))"
proof -
  let ?R = "post_message_request s env t1 t2 req"
  from no_key_request [OF assms, of t1 t2 req]
  have n: "snd (snd ?R) = None" and st: "status (fst ?R) \<noteq> 201"
    and cl: "clients (fst (snd ?R)) = clients s"
    and sto: "storage (fst (snd ?R)) = storage s
          \<or> (\<exists>ins. role_ins ins = ''user'' \<and>
                storage (fst (snd ?R)) = snd (createMessage (storage s) ins t1))"
    by blast+
  have pm: "post_message s env t1 t2 req up = (fst ?R, fst (snd ?R))"
    using n by (cases ?R) (simp add: post_message_def)
  have a: "\<forall>j m. getMessage (storage (fst (snd ?R))) j = Some m \<and> role_msg m = ''assistant''
               \<longrightarrow> getMessage (storage s) j = Some m"
    using sto
    by (auto simp add: getMessage_createMessage fst_createMessage split: if_splits)
  have b: "\<forall>c chat text.
             chatId_param req = Some c \<and> getChat (storage s) c = Some chat
             \<and> content_req req = Some text
           \<longrightarrow> fst ?R = Response 400 (Error_body
                   ''API key not configured in settings or environment variables (.env)'')"
    using post_message_request_no_key [OF _ _ _ assms, of req _ _ _ t1 t2] by simp
  show ?thesis unfolding pm using st cl a b by simp
qed

theorem no_api_key_no_placeholder_witness:
  "\<not> hasApiKey (storage demo_server) empty_env
   \<and> chatId_param demo_request = Some 1
   \<and> getChat (storage demo_server) 1 =
       Some \<lparr> id_chat = 1, botId_chat = 1, title_chat = ''Demo'', createdAt_chat = 0 \<rparr>
   \<and> content_req demo_request = Some ''hi''
   \<and> fst (post_message demo_server empty_env 1 2 demo_request (Stream demo_chunks Done)) =
       Response 400 (Error_body
         ''API key not configured in settings or environment variables (.env)'')
   \<and> status (fst (post_message demo_server empty_env 1 2 demo_request
                    (Stream demo_chunks Done))) \<noteq> 201
   \<and> clients (snd (post_message demo_server empty_env 1 2 demo_request
                     (Stream demo_chunks Done))) = clients demo_server"
proof -
  have c: "chatId_param demo_request = Some 1" and t: "content_req demo_request = Some ''hi''"
    by (simp_all add: demo_request_def)
  from no_api_key_no_placeholder [OF demo_no_key, of 1 2 demo_request "Stream demo_chunks Done"]
    c t demo_chat demo_no_key
  show ?thesis by simp
qed

text \<open>
  C10. No rollback. When the request fails with 400 at the key check, the user message
  it submitted is in the store when the handler has ended, under the id the store had
  next.
\<close>

theorem no_api_key_keeps_user_message:
  assumes "\<not> hasApiKey (storage s) env"
    and "chatId_param req = Some c" and "getChat (storage s) c = Some chat"
    and "content_req req = Some text"
  shows "fst (post_message s env t1 t2 req up) =
           Response 400 (Error_body
             ''API key not configured in settings or environment variables (.env)'')
       \<and> getMessage (storage (snd (post_message s env t1 t2 req up)))
           (messageCurrentId (storage s)) =
           Some \<lparr> id_msg = messageCurrentId (storage s), chatId_msg = c, content_msg = text,
                  role_msg = ''user'', createdAt_msg = t1,
                  files_msg = (if files_req req = [] then None
                               else Some (map to_attachment (files_req req))) \<rparr>"
  by (simp add: post_message_def post_message_request_no_key [OF assms(2,3,4,1)]
      getMessage_createMessage fst_createMessage)

theorem no_api_key_keeps_user_message_witness:
  "\<not> hasApiKey (storage demo_server) empty_env
   \<and> chatId_param demo_request = Some 1
   \<and> getChat (storage demo_server) 1 =
       Some \<lparr> id_chat = 1, botId_chat = 1, title_chat = ''Demo'', createdAt_chat = 0 \<rparr>
   \<and> content_req demo_request = Some ''hi''
   \<and> fst (post_message demo_server empty_env 1 2 demo_request Rejected) =
       Response 400 (Error_body
         ''API key not configured in settings or environment variables (.env)'')
   \<and> getMessage (storage (snd (post_message demo_server empty_env 1 2 demo_request Rejected)))
       1 =
       Some \<lparr> id_msg = 1, chatId_msg = 1, content_msg = ''hi'', role_msg = ''user'',
              createdAt_msg = 1, files_msg = None \<rparr>"
proof -
  have c: "chatId_param demo_request = Some 1" and t: "content_req demo_request = Some ''hi''"
    and f: "files_req demo_request = []"
    by (simp_all add: demo_request_def)
  from no_api_key_keeps_user_message [OF demo_no_key c demo_chat t, of 1 2 Rejected]
    c t f demo_chat demo_no_key demo_next_id
  show ?thesis by simp
qed

text \<open>
  C5, as stated, fails twice: a chat id that names no chat is answered 404, not 400;
  and an empty content with no files is accepted (here with 201).
\<close>

theorem unknown_chat_counterexample:
  "getChat (storage demo_server) 99 = None
   \<and> fst (post_message_request demo_server demo_env 1 2
            (demo_request\<lparr> chatId_param := Some 99 \<rparr>)) =
       Response 404 (Error_body ''Chat not found'')
   \<and> fst (post_message_request demo_server demo_env 1 2
            \<lparr> chatId_param = Some 1, content_req = Some [], files_req = [] \<rparr>) =
       Response 201 (Exchange_body
         \<lparr> id_msg = 1, chatId_msg = 1, content_msg = [], role_msg = ''user'',
           createdAt_msg = 1, files_msg = None \<rparr>
         \<lparr> id_msg = 2, chatId_msg = 1, content_msg = [], role_msg = ''assistant'',
           createdAt_msg = 2, files_msg = None \<rparr>)"
proof -
  have a: "getChat (storage demo_server) 99 = None"
    by (simp add: demo_server_def demo_storage_def MemStorage_new_def createChat_def
        getChat_def Let_def)
  have b: "fst (post_message_request demo_server demo_env 1 2
            (demo_request\<lparr> chatId_param := Some 99 \<rparr>)) =
       Response 404 (Error_body ''Chat not found'')"
    using a by (simp add: post_message_request_def demo_request_def)
  have c: "fst (post_message_request demo_server demo_env 1 2
            \<lparr> chatId_param = Some 1, content_req = Some [], files_req = [] \<rparr>) =
       Response 201 (Exchange_body
         \<lparr> id_msg = 1, chatId_msg = 1, content_msg = [], role_msg = ''user'',
           createdAt_msg = 1, files_msg = None \<rparr>
         \<lparr> id_msg = 2, chatId_msg = 1, content_msg = [], role_msg = ''assistant'',
           createdAt_msg = 2, files_msg = None \<rparr>)"
    using post_message_request_accepted [of "\<lparr> chatId_param = Some 1, content_req = Some [],
        files_req = [] \<rparr>" 1 demo_server _ "[]" demo_env _ 1 2] demo_chat demo_key demo_bot
      demo_next_id
    by simp
  from a b c show ?thesis by simp
qed

text \<open>
  C5, amended. The handler answers 400 when the chat id is not a number, 404 when it
  names no chat, and 400 when the content is missing (not a string), whatever the
  files; in these cases nothing is stored. A content that is a string, the empty one
  included, never fails the validation.
\<close>

theorem unknown_chat_404_missing_content_400:
  "(chatId_param req = None \<longrightarrow>
      post_message_request s env t1 t2 req =
        (Response 400 (Error_body ''Invalid chat ID''), s, None))
   \<and> (chatId_param req = Some c \<and> getChat (storage s) c = None \<longrightarrow>
      post_message_request s env t1 t2 req =
        (Response 404 (Error_body ''Chat not found''), s, None))
   \<and> (chatId_param req = Some c \<and> getChat (storage s) c = Some chat
        \<and> content_req req = None \<longrightarrow>
      post_message_request s env t1 t2 req =
        (Response 400 (Invalid_body ''Invalid message data''), s, None))
   \<and> (chatId_param req = Some c \<and> getChat (storage s) c = Some chat
        \<and> content_req req = Some text \<longrightarrow>
      fst (post_message_request s env t1 t2 req) \<noteq>
        Response 400 (Invalid_body ''Invalid message data''))"
proof (intro conjI impI)
  assume "chatId_param req = None"
  then show "post_message_request s env t1 t2 req =
        (Response 400 (Error_body ''Invalid chat ID''), s, None)"
    by (simp add: post_message_request_def)
next
  assume "chatId_param req = Some c \<and> getChat (storage s) c = None"
  then show "post_message_request s env t1 t2 req =
        (Response 404 (Error_body ''Chat not found''), s, None)"
    by (simp add: post_message_request_def)
next
  assume "chatId_param req = Some c \<and> getChat (storage s) c = Some chat
        \<and> content_req req = None"
  then show "post_message_request s env t1 t2 req =
        (Response 400 (Invalid_body ''Invalid message data''), s, None)"
    by (simp add: post_message_request_def insertMessageSchema_def)
next
  assume "chatId_param req = Some c \<and> getChat (storage s) c = Some chat
        \<and> content_req req = Some text"
  then show "fst (post_message_request s env t1 t2 req) \<noteq>
        Response 400 (Invalid_body ''Invalid message data'')"
    by (simp add: post_message_request_def insertMessageSchema_def Let_def case_prod_unfold
        split: option.splits)
qed

theorem unknown_chat_404_missing_content_400_witness:
  "chatId_param (demo_request\<lparr> chatId_param := None \<rparr>) = None
   \<and> post_message_request demo_server demo_env 1 2 (demo_request\<lparr> chatId_param := None \<rparr>) =
       (Response 400 (Error_body ''Invalid chat ID''), demo_server, None)
   \<and> chatId_param (demo_request\<lparr> chatId_param := Some 99 \<rparr>) = Some 99
   \<and> getChat (storage demo_server) 99 = None
   \<and> post_message_request demo_server demo_env 1 2 (demo_request\<lparr> chatId_param := Some 99 \<rparr>) =
       (Response 404 (Error_body ''Chat not found''), demo_server, None)
   \<and> chatId_param (demo_request\<lparr> content_req := None \<rparr>) = Some 1
   \<and> getChat (storage demo_server) 1 =
       Some \<lparr> id_chat = 1, botId_chat = 1, title_chat = ''Demo'', createdAt_chat = 0 \<rparr>
   \<and> content_req (demo_request\<lparr> content_req := None \<rparr>) = None
   \<and> post_message_request demo_server demo_env 1 2 (demo_request\<lparr> content_req := None \<rparr>) =
       (Response 400 (Invalid_body ''Invalid message data''), demo_server, None)
   \<and> content_req demo_request = Some ''hi''
   \<and> fst (post_message_request demo_server demo_env 1 2 demo_request) \<noteq>
       Response 400 (Invalid_body ''Invalid message data'')"
proof -
  have a: "getChat (storage demo_server) 99 = None"
    by (simp add: demo_server_def demo_storage_def MemStorage_new_def createChat_def
        getChat_def Let_def)
  have r: "chatId_param demo_request = Some 1" "content_req demo_request = Some ''hi''"
    by (simp_all add: demo_request_def)
  from unknown_chat_404_missing_content_400
         [of "demo_request\<lparr> chatId_param := None \<rparr>" demo_server demo_env 1 2]
       unknown_chat_404_missing_content_400
         [of "demo_request\<lparr> chatId_param := Some 99 \<rparr>" demo_server demo_env 1 2 99]
       unknown_chat_404_missing_content_400
         [of "demo_request\<lparr> content_req := None \<rparr>" demo_server demo_env 1 2 1
             "\<lparr> id_chat = 1, botId_chat = 1, title_chat = ''Demo'', createdAt_chat = 0 \<rparr>"]
       unknown_chat_404_missing_content_400
         [of demo_request demo_server demo_env 1 2 1
             "\<lparr> id_chat = 1, botId_chat = 1, title_chat = ''Demo'', createdAt_chat = 0 \<rparr>"
             "''hi''"]
       a r demo_chat
  show ?thesis by simp
qed

text \<open>
  C4, as stated, fails: client \<open>c\<close> is registered and bound to chat 1, and its
  channel is closing, so a send to it would fail. A broadcast for chat 1 delivers
  nothing to it and leaves it registered.
\<close>

theorem closing_socket_counterexample:
  "map_of demo_clients ''c'' =
     Some \<lparr> ws = \<lparr> readyState = CLOSING, sent = [] \<rparr>, chatId = Some 1 \<rparr>
   \<and> map_of (broadcast demo_clients 1 (message_update 2 ''Hel'')) ''c'' =
     Some \<lparr> ws = \<lparr> readyState = CLOSING, sent = [] \<rparr>, chatId = Some 1 \<rparr>"
  by (simp add: demo_clients_def broadcast_def)

text \<open>
  C4, amended. A broadcast for chat \<open>c\<close> appends the frame to the socket of every
  registered client that is bound to \<open>c\<close> and open, leaves every other client (bound
  to another chat, unbound, or not open) as it is, and removes nobody: the keys of the
  map are the same, in the same order. A client leaves the map by its close handler
  only, which leaves every other client as it is.
\<close>

theorem broadcast_reaches_open_viewers:
  "map fst (broadcast cls c f) = map fst cls
   \<and> map_of (broadcast cls c f) k =
       map_option
         (\<lambda>cl. if chatId cl = Some c \<and> readyState (ws cl) = OPEN
               then cl\<lparr> ws := (ws cl)\<lparr> sent := sent (ws cl) @ [f] \<rparr> \<rparr>
               else cl)
         (map_of cls k)
   \<and> map_of (on_close cls i) k = (if k = i then None else map_of cls k)"
proof -
  have "(\<lambda>cl. if chatId cl = Some c \<and> readyState (ws cl) = OPEN
               then cl\<lparr> ws := (ws cl)\<lparr> sent := sent (ws cl) @ [f] \<rparr> \<rparr>
               else cl) = deliver c [f]"
    by (rule ext) (simp add: deliver_def viewer_def)
  then show ?thesis
    by (simp add: broadcast_fan_out keys_fan_out map_of_fan_out on_close_def delete_conv')
qed

text \<open>The role of every stored message across the streaming and across updates.\<close>

lemma relay_loop_role:
  "map_option role_msg (getMessage (storage (fst (relay_loop s c mid full chs))) j) =
     map_option role_msg (getMessage (storage s) j)"
  by (induction chs arbitrary: s full)
     (simp_all add: getMessage_updateMessage merge_content_only option.map_comp comp_def)

lemma relay_role:
  "map_option role_msg (getMessage (storage (relay s c mid up)) j) =
     map_option role_msg (getMessage (storage s) j)"
proof (cases up)
  case Rejected
  then show ?thesis
    by (simp add: relay_def relay_catch_getMessage option.map_comp comp_def)
next
  case (Stream chs e)
  show ?thesis
  proof (cases e)
    case Done
    with Stream show ?thesis
      using relay_loop_role [of s c mid "[]" chs]
      by (simp add: relay_done_getMessage option.map_comp comp_def)
  next
    case Failed
    with Stream show ?thesis
      using relay_loop_role [of s c mid "[]" chs]
      by (simp add: relay_def case_prod_unfold relay_catch_getMessage option.map_comp comp_def)
  qed
qed

lemma updateMessage_role:
  "role_upd u = None \<Longrightarrow>
   map_option role_msg (getMessage (snd (updateMessage st i u)) j) =
     map_option role_msg (getMessage st j)"
  by (simp add: getMessage_updateMessage option.map_comp comp_def merge_message_def)

lemma patch_message_role:
  "role_body b = None \<Longrightarrow>
   map_option role_msg (getMessage (storage (snd (patch_message s i b))) j) =
     map_option role_msg (getMessage (storage s) j)"
  by (auto simp add: patch_message_def insertMessageSchema_partial_def case_prod_unfold Let_def
      updateMessage_role split: option.splits)

text \<open>
  C6, as stated, fails: \<open>insertMessageSchema.partial()\<close> lets a \<open>role\<close> through,
  and PATCH on the user message 1 with the body \<open>{role: "assistant"}\<close> is answered 200
  and stores the message with the role \<open>assistant\<close>.
\<close>

theorem role_changed_by_patch_counterexample:
  "map_option role_msg (getMessage (storage demo_started) 1) = Some ''user''
   \<and> fst (patch_message demo_started (Some 1)
            \<lparr> chatId_body = None, content_body = None,
              role_body = Some (JStr ''assistant''), files_body = None \<rparr>) =
       Response 200 (Message_body (Some
         \<lparr> id_msg = 1, chatId_msg = 1, content_msg = ''hi'', role_msg = ''assistant'',
           createdAt_msg = 1, files_msg = None \<rparr>))
   \<and> map_option role_msg
       (getMessage
          (storage (snd (patch_message demo_started (Some 1)
                           \<lparr> chatId_body = None, content_body = None,
                             role_body = Some (JStr ''assistant''), files_body = None \<rparr>)))
          1) = Some ''assistant''"
  by (simp add: getMessage_def demo_started_messages patch_message_def
      insertMessageSchema_partial_def updateMessage_def merge_message_def Let_def)

text \<open>
  C6, amended. The role of every message is left as it is by a storage update that
  carries no \<open>role\<close> key, by the whole streaming of an exchange (snapshots, final
  update and fallback alike, whatever the upstream does), and by a PATCH whose body has
  no \<open>role\<close> key.
\<close>

theorem role_kept_without_role_key:
  "(role_upd u = None \<longrightarrow>
      map_option role_msg (getMessage (snd (updateMessage st i u)) j) =
        map_option role_msg (getMessage st j))
   \<and> map_option role_msg (getMessage (storage (relay s c mid up)) j) =
       map_option role_msg (getMessage (storage s) j)
   \<and> (role_body b = None \<longrightarrow>
      map_option role_msg (getMessage (storage (snd (patch_message s i' b))) j) =
        map_option role_msg (getMessage (storage s) j))"
proof (intro conjI impI)
  assume "role_upd u = None"
  then show "map_option role_msg (getMessage (snd (updateMessage st i u)) j) =
               map_option role_msg (getMessage st j)"
    by (rule updateMessage_role)
next
  show "map_option role_msg (getMessage (storage (relay s c mid up)) j) =
          map_option role_msg (getMessage (storage s) j)"
    by (rule relay_role)
next
  assume "role_body b = None"
  then show "map_option role_msg (getMessage (storage (snd (patch_message s i' b))) j) =
               map_option role_msg (getMessage (storage s) j)"
    by (rule patch_message_role)
qed

theorem role_kept_without_role_key_witness:
  "role_upd (content_only ''edited'') = None
   \<and> map_option role_msg
       (getMessage (snd (updateMessage (storage demo_started) 1 (content_only ''edited''))) 1) =
       Some ''user''
   \<and> map_option role_msg
       (getMessage (storage (relay demo_started 1 2 (Stream demo_chunks Done))) 2) =
       Some ''assistant''
   \<and> role_body \<lparr> chatId_body = None, content_body = Some (JStr ''edited''),
                 role_body = None, files_body = None \<rparr> = None
   \<and> map_option role_msg
       (getMessage
          (storage (snd (patch_message demo_started (Some 1)
                           \<lparr> chatId_body = None, content_body = Some (JStr ''edited''),
                             role_body = None, files_body = None \<rparr>)))
          1) = Some ''user''"
proof -
  have u: "role_upd (content_only ''edited'') = None" by (simp add: content_only_def)
  have m1: "map_option role_msg (getMessage (storage demo_started) 1) = Some ''user''"
    and m2: "map_option role_msg (getMessage (storage demo_started) 2) = Some ''assistant''"
    by (simp_all add: getMessage_def demo_started_messages demo_placeholder_def)
  from role_kept_without_role_key
         [of "content_only ''edited''" "storage demo_started" 1 1 demo_started 1 2
             "Stream demo_chunks Done"
             "\<lparr> chatId_body = None, content_body = Some (JStr ''edited''),
                role_body = None, files_body = None \<rparr>" "Some 1"]
       role_kept_without_role_key
         [of "content_only ''edited''" "storage demo_started" 1 2 demo_started 1 2
             "Stream demo_chunks Done"
             "\<lparr> chatId_body = None, content_body = Some (JStr ''edited''),
                role_body = None, files_body = None \<rparr>" "Some 1"]
       u m1 m2
  show ?thesis by simp
qed

section \<open>The settings responses\<close>

lemma safe_settings_json_no_key: "map_of (safe_settings_json st env) ''apiKey'' = None"
  by (simp add: safe_settings_json_def Let_def update_conv' delete_conv' split: option.splits)

lemma safe_settings_json_hasApiKey:
  "map_of (safe_settings_json st env) ''hasApiKey'' =
     Some (JBool (truthy (map_of st ''apiKey'') \<or> truthy_env (OPENAI_API_KEY env)))"
  by (simp add: safe_settings_json_def Let_def update_conv' delete_conv' split: option.splits)

lemma safe_settings_json_low:
  assumes d: "AList.delete ''apiKey'' st = AList.delete ''apiKey'' st'"
    and t: "truthy (map_of st ''apiKey'') = truthy (map_of st' ''apiKey'')"
  shows "safe_settings_json st env = safe_settings_json st' env"
  unfolding safe_settings_json_def Let_def d t by (rule refl)

lemma update_low:
  assumes "AList.delete ''apiKey'' st = AList.delete ''apiKey'' st'"
    and "truthy (map_of st ''apiKey'') = truthy (map_of st' ''apiKey'')"
  shows "AList.delete ''apiKey'' (AList.update k v st) =
           AList.delete ''apiKey'' (AList.update k v st')
       \<and> truthy (map_of (AList.update k v st) ''apiKey'') =
           truthy (map_of (AList.update k v st') ''apiKey'')"
proof (cases "k = ''apiKey''")
  case True
  with assms show ?thesis by (simp add: delete_update_same update_conv')
next
  case False
  with assms show ?thesis by (simp add: delete_update update_conv')
qed

lemma spread_low:
  "AList.delete ''apiKey'' st = AList.delete ''apiKey'' st' \<Longrightarrow>
   truthy (map_of st ''apiKey'') = truthy (map_of st' ''apiKey'') \<Longrightarrow>
   AList.delete ''apiKey'' (spread st d) = AList.delete ''apiKey'' (spread st' d)
   \<and> truthy (map_of (spread st d) ''apiKey'') = truthy (map_of (spread st' d) ''apiKey'')"
proof (induction d arbitrary: st st')
  case Nil
  then show ?case by (simp add: spread_def)
next
  case (Cons kv d)
  obtain k v where kv: "kv = (k, v)" by (cases kv)
  from update_low [OF Cons.prems, of k v]
  have "AList.delete ''apiKey'' (spread (AList.update k v st) d) =
          AList.delete ''apiKey'' (spread (AList.update k v st') d)
      \<and> truthy (map_of (spread (AList.update k v st) d) ''apiKey'') =
          truthy (map_of (spread (AList.update k v st') d) ''apiKey'')"
    by (intro Cons.IH) simp_all
  then show ?case by (simp add: spread_def kv)
qed

lemma patch_settings_low:
  assumes "settings (storage s) = Some st" and "settings (storage s') = Some st'"
    and "AList.delete ''apiKey'' st = AList.delete ''apiKey'' st'"
    and "truthy (map_of st ''apiKey'') = truthy (map_of st' ''apiKey'')"
  shows "fst (patch_settings s env b) = fst (patch_settings s' env b)"
proof (cases "safeParse_partial insertSettingsSchema b")
  case None
  then show ?thesis by (simp add: patch_settings_def)
next
  case (Some d)
  from spread_low [OF assms(3,4), of d]
  have "safe_settings_json (spread st d) env = safe_settings_json (spread st' d) env"
    by (intro safe_settings_json_low) simp_all
  with Some assms(1,2) show ?thesis
    by (simp add: patch_settings_def updateSettings_def Let_def)
qed

lemma get_settings_low:
  assumes "settings (storage s) = Some st" and "settings (storage s') = Some st'"
    and "AList.delete ''apiKey'' st = AList.delete ''apiKey'' st'"
    and "truthy (map_of st ''apiKey'') = truthy (map_of st' ''apiKey'')"
  shows "get_settings s env = get_settings s' env"
  using assms safe_settings_json_low [OF assms(3,4), of env]
  by (simp add: get_settings_def getSettings_def)

text \<open>The submitted key: the parse puts it first, and the rest does not depend on it.\<close>

lemma parsed_key:
  "map_of b ''apiKey'' = Some (JStr k) \<Longrightarrow>
   safeParse_partial insertSettingsSchema b =
     map_option ((#) (''apiKey'', JStr k))
       (safeParse_partial insertSettingsSchema (AList.delete ''apiKey'' b))"
  by (simp add: safeParse_partial_def insertSettingsSchema_def delete_conv')

lemma patch_settings_submitted_key:
  assumes "map_of b ''apiKey'' = Some (JStr k)" and "k \<noteq> []" and "k' \<noteq> []"
  shows "fst (patch_settings s env (AList.update ''apiKey'' (JStr k') b)) =
           fst (patch_settings s env b)"
proof -
  let ?b' = "AList.update ''apiKey'' (JStr k') b"
  let ?rest = "safeParse_partial insertSettingsSchema (AList.delete ''apiKey'' b)"
  let ?st = "case settings (storage s) of None \<Rightarrow> [] | Some x \<Rightarrow> x"
  have p: "safeParse_partial insertSettingsSchema b =
             map_option ((#) (''apiKey'', JStr k)) ?rest"
    by (rule parsed_key [OF assms(1)])
  have "map_of ?b' ''apiKey'' = Some (JStr k')" by (simp add: update_conv')
  from parsed_key [OF this]
  have p': "safeParse_partial insertSettingsSchema ?b' =
              map_option ((#) (''apiKey'', JStr k')) ?rest"
    by (simp add: delete_update_same)
  show ?thesis
  proof (cases ?rest)
    case None
    with p p' show ?thesis by (simp add: patch_settings_def)
  next
    case (Some d)
    have "AList.delete ''apiKey'' (spread (AList.update ''apiKey'' (JStr k') ?st) d) =
            AList.delete ''apiKey'' (spread (AList.update ''apiKey'' (JStr k) ?st) d)
        \<and> truthy (map_of (spread (AList.update ''apiKey'' (JStr k') ?st) d) ''apiKey'') =
            truthy (map_of (spread (AList.update ''apiKey'' (JStr k) ?st) d) ''apiKey'')"
      using assms(2,3) by (intro spread_low) (simp_all add: delete_update_same update_conv')
    then have "safe_settings_json (spread (AList.update ''apiKey'' (JStr k') ?st) d) env =
                 safe_settings_json (spread (AList.update ''apiKey'' (JStr k) ?st) d) env"
      by (intro safe_settings_json_low) simp_all
    with Some p p' show ?thesis
      by (simp add: patch_settings_def updateSettings_def Let_def spread_def)
  qed
qed

lemma demo_keyed_settings: "settings (storage (demo_keyed k)) = Some (demo_settings k)"
  by (simp add: demo_keyed_def patch_settings_def safeParse_partial_def
      insertSettingsSchema_def updateSettings_def spread_def Let_def demo_server_def
      demo_storage_def createChat_def MemStorage_new_def demo_settings_def)

text \<open>
  C8. The settings responses. No response body of GET or PATCH /api/settings has an
  \<open>apiKey\<close> field, and every 200 body has a boolean \<open>hasApiKey\<close>. The responses do
  not depend on the value of the key: two servers whose settings differ in the stored
  key only, both keys truthy or both not, give the same responses to GET and to every
  PATCH; and a PATCH that submits a non-empty key is answered the same for every other
  non-empty key.
\<close>

theorem settings_responses_hide_key:
  "map_of (body_obj (body (get_settings s env))) ''apiKey'' = None
   \<and> map_of (body_obj (body (fst (patch_settings s env b)))) ''apiKey'' = None
   \<and> (status (get_settings s env) = 200 \<longrightarrow>
        (\<exists>h. map_of (body_obj (body (get_settings s env))) ''hasApiKey'' = Some (JBool h)))
   \<and> (status (fst (patch_settings s env b)) = 200 \<longrightarrow>
        (\<exists>h. map_of (body_obj (body (fst (patch_settings s env b)))) ''hasApiKey'' =
               Some (JBool h)))
   \<and> (settings (storage s) = Some st \<and> settings (storage s') = Some st'
        \<and> AList.delete ''apiKey'' st = AList.delete ''apiKey'' st'
        \<and> truthy (map_of st ''apiKey'') = truthy (map_of st' ''apiKey'') \<longrightarrow>
      get_settings s env = get_settings s' env
      \<and> fst (patch_settings s env b) = fst (patch_settings s' env b))
   \<and> (map_of b ''apiKey'' = Some (JStr k) \<and> k \<noteq> [] \<and> k' \<noteq> [] \<longrightarrow>
      fst (patch_settings s env (AList.update ''apiKey'' (JStr k') b)) =
        fst (patch_settings s env b))"
proof (intro conjI impI)
  show "map_of (body_obj (body (get_settings s env))) ''apiKey'' = None"
    by (simp add: get_settings_def safe_settings_json_no_key split: option.splits)
  show "map_of (body_obj (body (fst (patch_settings s env b)))) ''apiKey'' = None"
    by (simp add: patch_settings_def case_prod_unfold Let_def safe_settings_json_no_key
        split: option.splits)
  show "\<exists>h. map_of (body_obj (body (get_settings s env))) ''hasApiKey'' = Some (JBool h)"
    if "status (get_settings s env) = 200"
    using that
    by (simp add: get_settings_def safe_settings_json_hasApiKey split: option.splits)
  show "\<exists>h. map_of (body_obj (body (fst (patch_settings s env b)))) ''hasApiKey'' =
               Some (JBool h)"
    if "status (fst (patch_settings s env b)) = 200"
    using that
    by (simp add: patch_settings_def case_prod_unfold Let_def safe_settings_json_hasApiKey
        split: option.splits)
  show "get_settings s env = get_settings s' env"
    if "settings (storage s) = Some st \<and> settings (storage s') = Some st'
        \<and> AList.delete ''apiKey'' st = AList.delete ''apiKey'' st'
        \<and> truthy (map_of st ''apiKey'') = truthy (map_of st' ''apiKey'')"
    using that get_settings_low [of s st s' st' env] by blast
  show "fst (patch_settings s env b) = fst (patch_settings s' env b)"
    if "settings (storage s) = Some st \<and> settings (storage s') = Some st'
        \<and> AList.delete ''apiKey'' st = AList.delete ''apiKey'' st'
        \<and> truthy (map_of st ''apiKey'') = truthy (map_of st' ''apiKey'')"
    using that patch_settings_low [of s st s' st' env b] by blast
  show "fst (patch_settings s env (AList.update ''apiKey'' (JStr k') b)) =
          fst (patch_settings s env b)"
    if "map_of b ''apiKey'' = Some (JStr k) \<and> k \<noteq> [] \<and> k' \<noteq> []"
    using that patch_settings_submitted_key [of b k k' s env] by blast
qed

theorem settings_responses_hide_key_witness:
  "settings (storage (demo_keyed ''sk-one'')) = Some (demo_settings ''sk-one'')
   \<and> settings (storage (demo_keyed ''sk-two'')) = Some (demo_settings ''sk-two'')
   \<and> AList.delete ''apiKey'' (demo_settings ''sk-one'') =
       AList.delete ''apiKey'' (demo_settings ''sk-two'')
   \<and> truthy (map_of (demo_settings ''sk-one'') ''apiKey'') =
       truthy (map_of (demo_settings ''sk-two'') ''apiKey'')
   \<and> get_settings (demo_keyed ''sk-one'') empty_env = get_settings (demo_keyed ''sk-two'') empty_env
   \<and> fst (patch_settings (demo_keyed ''sk-one'') empty_env [(''topK'', JStr ''0.9'')]) =
       fst (patch_settings (demo_keyed ''sk-two'') empty_env [(''topK'', JStr ''0.9'')])
   \<and> status (get_settings (demo_keyed ''sk-one'') empty_env) = 200
   \<and> (\<exists>h. map_of (body_obj (body (get_settings (demo_keyed ''sk-one'') empty_env)))
            ''hasApiKey'' = Some (JBool h))
   \<and> map_of (body_obj (body (get_settings (demo_keyed ''sk-one'') empty_env))) ''apiKey'' = None
   \<and> map_of [(''apiKey'', JStr ''sk-one'')] ''apiKey'' = Some (JStr ''sk-one'')
   \<and> fst (patch_settings demo_server empty_env
            (AList.update ''apiKey'' (JStr ''sk-two'') [(''apiKey'', JStr ''sk-one'')])) =
       fst (patch_settings demo_server empty_env [(''apiKey'', JStr ''sk-one'')])"
proof -
  have d: "AList.delete ''apiKey'' (demo_settings ''sk-one'') =
             AList.delete ''apiKey'' (demo_settings ''sk-two'')"
    and t: "truthy (map_of (demo_settings ''sk-one'') ''apiKey'') =
              truthy (map_of (demo_settings ''sk-two'') ''apiKey'')"
    by (simp_all add: demo_settings_def)
  have st: "status (get_settings (demo_keyed ''sk-one'') empty_env) = 200"
    by (simp add: get_settings_def getSettings_def demo_keyed_settings)
  note one = settings_responses_hide_key
         [of "demo_keyed ''sk-one''" empty_env "[(''topK'', JStr ''0.9'')]"
             "demo_settings ''sk-one''" "demo_keyed ''sk-two''" "demo_settings ''sk-two''"
             "[]" "[]"]
  note two = settings_responses_hide_key
         [of demo_server empty_env "[(''apiKey'', JStr ''sk-one'')]"
             "demo_settings []" demo_server "demo_settings []" "''sk-one''" "''sk-two''"]
  have a: "get_settings (demo_keyed ''sk-one'') empty_env =
             get_settings (demo_keyed ''sk-two'') empty_env"
    and b: "fst (patch_settings (demo_keyed ''sk-one'') empty_env [(''topK'', JStr ''0.9'')]) =
              fst (patch_settings (demo_keyed ''sk-two'') empty_env [(''topK'', JStr ''0.9'')])"
    using one d t demo_keyed_settings by blast+
  have c: "\<exists>h. map_of (body_obj (body (get_settings (demo_keyed ''sk-one'') empty_env)))
            ''hasApiKey'' = Some (JBool h)"
    and e: "map_of (body_obj (body (get_settings (demo_keyed ''sk-one'') empty_env)))
            ''apiKey'' = None"
    using one st by blast+
  have k: "map_of [(''apiKey'', JStr ''sk-one'')] ''apiKey'' = Some (JStr ''sk-one'')"
    by simp
  have ne: "''sk-one'' \<noteq> []" "''sk-two'' \<noteq> []" by simp_all
  have f: "fst (patch_settings demo_server empty_env
            (AList.update ''apiKey'' (JStr ''sk-two'') [(''apiKey'', JStr ''sk-one'')])) =
       fst (patch_settings demo_server empty_env [(''apiKey'', JStr ''sk-one'')])"
    using two k ne by blast
  show ?thesis
    using demo_keyed_settings [of "''sk-one''"] demo_keyed_settings [of "''sk-two''"]
      d t a b st c e k f
    by (intro conjI)
qed

end
